theory Spec2Isabelle
  imports Complex_Main "HOL-Library.AList" "HOL-Library.Log_Nat"
begin

section \<open>Floating-point numbers\<close>

text \<open>
  A Python \<open>float\<close> and a JavaScript number are both IEEE 754 doubles. A finite double
  is modelled by the real number it denotes, and every arithmetic operation of the two
  programs rounds its exact result to the nearest double, ties to even (\<open>fl\<close>): 53
  significant bits. The exponent range is not bounded in the model, so overflow to
  infinity, subnormal results and NaN are outside it; the scores and weights of this
  program lie between \<open>-100\<close> and \<open>100\<close>.
\<close>

definition pow2 :: "int \<Rightarrow> real" where
  "pow2 k = (if 0 \<le> k then 2 ^ nat k else 1 / 2 ^ nat (- k))"

text \<open>\<open>binade x\<close> is the exponent \<open>e\<close> with \<open>2^e \<le> |x| < 2^(e+1)\<close>, for \<open>x \<noteq> 0\<close>.\<close>

definition binade :: "real \<Rightarrow> int" where
  "binade x =
     (if 1 \<le> \<bar>x\<bar> then bitlen \<lfloor>\<bar>x\<bar>\<rfloor> - 1 else - bitlen (\<lceil>1 / \<bar>x\<bar>\<rceil> - 1))"

text \<open>
  The integer nearest to \<open>q\<close>, a tie going to the even one: \<open>\<lfloor>q + 1/2\<rfloor>\<close>, less one
  when \<open>q + 1/2\<close> is an odd integer.
\<close>

definition tie_to_even :: "real \<Rightarrow> int \<Rightarrow> int" where
  "tie_to_even h n = (if of_int n = h \<and> odd n then n - 1 else n)"

definition round_half_even :: "real \<Rightarrow> int" where
  "round_half_even q = tie_to_even (q + 1/2) \<lfloor>q + 1/2\<rfloor>"

text \<open>Rounding \<open>x\<close> to a multiple of the spacing \<open>s\<close> of the doubles around it.\<close>

definition round_to_multiple :: "real \<Rightarrow> real \<Rightarrow> real" where
  "round_to_multiple s x = of_int (round_half_even (x / s)) * s"

definition fl :: "real \<Rightarrow> real" where
  "fl x = (if x = 0 then 0 else round_to_multiple (pow2 (binade x - 52)) x)"

section \<open>Dual-vector merge and re-rank (\<open>search_similar\<close>)\<close>

text \<open>
  The vector store answers a named-vector query with a list of scored points, best first.
  Each point carries its identifier, its cosine score and the payload stored with it.
  A score is a Python float; the payload is kept polymorphic where the code treats it as
  opaque.
\<close>

record 'p scored_point =
  point_id :: int
  point_score :: real
  point_payload :: 'p

text \<open>The payload fields stored alongside the vectors.\<close>

record payload =
  full_name :: string
  description :: string
  url :: string
  topics :: "string list"
  language_primary :: string
  stars :: int
  last_updated :: string
  indexed_at :: string

text \<open>
  One value of the \<open>scores\<close> dictionary:
  \<^verbatim>\<open>{"purpose": ..., "stack": ..., "payload": ...}\<close>.
\<close>

record 'p entry =
  purpose :: real
  stack :: real
  payload :: 'p

record 'p search_result =
  result_id :: int
  result_score :: real
  result_payload :: 'p

text \<open>
  A Python \<open>dict\<close> keeps its keys in insertion order, and assigning to a key that is
  already present keeps the key's position. The dictionary is therefore an association
  list with distinct keys, written with \<^const>\<open>AList.update\<close> and read with
  \<^const>\<open>map_of\<close>.
\<close>

type_synonym 'p scores = "(int \<times> 'p entry) list"

text \<open>
  \<^verbatim>\<open>for r in purpose_results:
    scores[r.id] = {"purpose": r.score, "stack": 0.0, "payload": r.payload}\<close>
\<close>

definition add_purpose :: "'p scores \<Rightarrow> 'p scored_point \<Rightarrow> 'p scores" where
  "add_purpose scores r =
     AList.update (point_id r)
       \<lparr>purpose = point_score r, stack = 0, payload = point_payload r\<rparr> scores"

text \<open>
  \<^verbatim>\<open>for r in stack_results:
    if r.id in scores:
        scores[r.id]["stack"] = r.score
    else:
        scores[r.id] = {"purpose": 0.0, "stack": r.score, "payload": r.payload}\<close>
\<close>

definition add_stack :: "'p scores \<Rightarrow> 'p scored_point \<Rightarrow> 'p scores" where
  "add_stack scores r =
     (case map_of scores (point_id r) of
        Some d \<Rightarrow> AList.update (point_id r) (d\<lparr>stack := point_score r\<rparr>) scores
      | None \<Rightarrow>
          AList.update (point_id r)
            \<lparr>purpose = 0, stack = point_score r, payload = point_payload r\<rparr> scores)"

definition merge_scores :: "'p scored_point list \<Rightarrow> 'p scored_point list \<Rightarrow> 'p scores" where
  "merge_scores purpose_results stack_results =
     foldl add_stack (foldl add_purpose [] purpose_results) stack_results"

text \<open>Python's \<open>*\<close> and \<open>+\<close> on floats: the exact result, rounded.\<close>

definition py_mul :: "real \<Rightarrow> real \<Rightarrow> real" where
  "py_mul a b = fl (a * b)"

definition py_add :: "real \<Rightarrow> real \<Rightarrow> real" where
  "py_add a b = fl (a + b)"

text \<open>
  \<^verbatim>\<open>final = w_purpose * data["purpose"] + w_stack * data["stack"]\<close>
\<close>

definition final_score :: "real \<Rightarrow> real \<Rightarrow> 'p entry \<Rightarrow> real" where
  "final_score w_purpose w_stack d =
     py_add (py_mul w_purpose (purpose d)) (py_mul w_stack (stack d))"

text \<open>
  \<^verbatim>\<open>ranked = []
for repo_id, data in scores.items():
    final = ...
    if final >= min_score:
        ranked.append(SearchResult(id=repo_id, score=final, payload=data["payload"]))\<close>
\<close>

fun rank_loop :: "real \<Rightarrow> real \<Rightarrow> real \<Rightarrow> 'p scores \<Rightarrow> 'p search_result list" where
  "rank_loop w_purpose w_stack min_score [] = []"
| "rank_loop w_purpose w_stack min_score ((repo_id, d) # rest) =
     (let final = final_score w_purpose w_stack d in
      if final \<ge> min_score
      then \<lparr>result_id = repo_id, result_score = final, result_payload = payload d\<rparr>
             # rank_loop w_purpose w_stack min_score rest
      else rank_loop w_purpose w_stack min_score rest)"

text \<open>
  \<^verbatim>\<open>ranked.sort(key=lambda x: x.score, reverse=True)\<close>: Python's sort is stable, also
  with \<open>reverse=True\<close>, so results of equal score keep the order they had in
  \<open>ranked\<close>. The stable insertion sort on the negated score computes that list.
\<close>

definition sort_by_score_desc :: "'p search_result list \<Rightarrow> 'p search_result list" where
  "sort_by_score_desc ranked = sort_key (\<lambda>x. - result_score x) ranked"

text \<open>
  \<^verbatim>\<open>ranked[:limit]\<close>, a Python slice: the first \<open>limit\<close> elements when \<open>limit\<close> is not
  negative, all but the last \<open>-limit\<close> elements when it is.
\<close>

definition py_slice_to :: "int \<Rightarrow> 'a list \<Rightarrow> 'a list" where
  "py_slice_to limit xs =
     (if 0 \<le> limit then take (nat limit) xs else take (length xs - nat (- limit)) xs)"

text \<open>
  The whole function. The two store queries are its inputs \<open>purpose_results\<close> and
  \<open>stack_results\<close>.
\<close>

definition search_similar ::
  "'p scored_point list \<Rightarrow> 'p scored_point list \<Rightarrow> real \<Rightarrow> real \<Rightarrow> int \<Rightarrow> real
     \<Rightarrow> 'p search_result list" where
  "search_similar purpose_results stack_results w_purpose w_stack limit min_score =
     py_slice_to limit
       (sort_by_score_desc
          (rank_loop w_purpose w_stack min_score
             (merge_scores purpose_results stack_results)))"

text \<open>
  The loop above, read as a comprehension: the candidates kept by the \<open>min_score\<close>
  test, in dictionary order, each turned into a \<open>SearchResult\<close>.
\<close>

definition to_result :: "real \<Rightarrow> real \<Rightarrow> int \<times> 'p entry \<Rightarrow> 'p search_result" where
  "to_result w_purpose w_stack c =
     \<lparr>result_id = fst c, result_score = final_score w_purpose w_stack (snd c),
      result_payload = payload (snd c)\<rparr>"

definition retained :: "real \<Rightarrow> real \<Rightarrow> real \<Rightarrow> 'p scores \<Rightarrow> 'p scores" where
  "retained w_purpose w_stack min_score merged =
     filter (\<lambda>c. min_score \<le> final_score w_purpose w_stack (snd c)) merged"

subsection \<open>The ranking rules in the specification's words\<close>


text \<open>
  The specification's order on results: descending similarity score, ties broken by
  descending star count, then by identifier.
\<close>

definition spec_ranks_before :: "payload search_result \<Rightarrow> payload search_result \<Rightarrow> bool" where
  "spec_ranks_before a b \<longleftrightarrow>
     result_score a > result_score b
     \<or> (result_score a = result_score b
        \<and> (stars (result_payload a) > stars (result_payload b)
           \<or> (stars (result_payload a) = stars (result_payload b)
              \<and> result_id a \<le> result_id b)))"

text \<open>
  The specification's retention rule: at least \<open>min_score\<close>, and not the query
  repository itself.
\<close>

definition spec_retained :: "int \<Rightarrow> real \<Rightarrow> real \<Rightarrow> real \<Rightarrow> int \<times> 'p entry \<Rightarrow> bool" where
  "spec_retained query_id w_purpose w_stack min_score c \<longleftrightarrow>
     min_score \<le> final_score w_purpose w_stack (snd c) \<and> fst c \<noteq> query_id"

text \<open>A payload with a name and a star count, for concrete inputs.\<close>

definition repo :: "string \<Rightarrow> int \<Rightarrow> payload" where
  "repo name n =
     \<lparr>full_name = name, description = [], url = [], topics = [], language_primary = [],
      stars = n, last_updated = [], indexed_at = []\<rparr>"

section \<open>The web client\<close>

subsection \<open>JavaScript numbers\<close>


definition js_sub :: "real \<Rightarrow> real \<Rightarrow> real" where
  "js_sub a b = fl (a - b)"

definition js_mul :: "real \<Rightarrow> real \<Rightarrow> real" where
  "js_mul a b = fl (a * b)"

text \<open>Division by a non-zero number (the only divisor in this program is \<open>100\<close>).\<close>

definition js_div :: "real \<Rightarrow> real \<Rightarrow> real" where
  "js_div a b = fl (a / b)"

text \<open>
  \<^verbatim>\<open>Math.round(x)\<close>: the integer nearest to \<open>x\<close>, a tie going towards \<open>+\<infinity>\<close>. The result
  is an integer below \<open>2^53\<close> here, hence a double.
\<close>

definition Math_round :: "real \<Rightarrow> real" where
  "Math_round x = of_int \<lfloor>x + 1/2\<rfloor>"

text \<open>A decimal literal of the source denotes the nearest double.\<close>

definition literal_0_7 :: real where
  "literal_0_7 = fl (7/10)"

subsection \<open>JavaScript strings and JSON values\<close>

text \<open>
  A JavaScript string is a sequence of UTF-16 code units; \<open>str\<close> turns an ASCII
  literal into one.
\<close>

type_synonym js_string = "nat list"

definition str :: "string \<Rightarrow> js_string" where
  "str s = map of_char s"

text \<open>The values \<^verbatim>\<open>JSON.parse\<close> produces. An object keeps its members in order.\<close>

datatype json =
    JNull
  | JBool bool
  | JNum real
  | JStr js_string
  | JArr "json list"
  | JObj "(js_string \<times> json) list"

text \<open>The result of reading a property: \<^verbatim>\<open>undefined\<close> or a value.\<close>

datatype js_value = Undefined | Val json

text \<open>
  A thrown value, or the reason of a rejected promise: an \<^verbatim>\<open>Error\<close> instance (of any
  subclass) with its \<open>message\<close>, or something that is not an \<^verbatim>\<open>Error\<close>.
\<close>

datatype thrown = Error js_string | NonError

text \<open>The request handed to \<^verbatim>\<open>fetch\<close>: the URL and the options of the call.\<close>

record request =
  req_url :: js_string
  req_method :: js_string
  req_headers :: "(js_string \<times> js_string) list"
  req_body :: json

text \<open>
  A response: its \<^verbatim>\<open>ok\<close> flag and what \<^verbatim>\<open>res.json()\<close> settles to, the parsed body or
  the rejection of a body that is not JSON.
\<close>

record response =
  ok :: bool
  res_json :: "thrown + json"

text \<open>
  What the program is given by its surroundings: the configured base URL, the network
  (\<^verbatim>\<open>fetch\<close> together with the abort timer of \<^verbatim>\<open>fetchWithTimeout\<close>, which makes \<^verbatim>\<open>fetch\<close>
  reject), the engine's number formatting and the engine's messages for its own
  \<^verbatim>\<open>TypeError\<close>s.
\<close>

record env =
  API_BASE :: js_string
  fetch :: "request \<Rightarrow> thrown + response"
  number_to_string :: "real \<Rightarrow> js_string"
  null_read_message :: js_string
  to_primitive_message :: js_string

text \<open>
  Reading a property that no built-in prototype defines (\<open>detail\<close>,
  \<open>indexed_count\<close>): a \<^verbatim>\<open>TypeError\<close> on \<^verbatim>\<open>null\<close>, the member of an object (the last
  one of that name, as \<^verbatim>\<open>JSON.parse\<close> keeps it), \<^verbatim>\<open>undefined\<close> otherwise.
\<close>

fun get_field :: "env \<Rightarrow> json \<Rightarrow> js_string \<Rightarrow> thrown + js_value" where
  "get_field e JNull k = Inl (Error (null_read_message e))"
| "get_field e (JObj members) k =
     Inr (case map_of (rev members) k of None \<Rightarrow> Undefined | Some v \<Rightarrow> Val v)"
| "get_field e _ k = Inr Undefined"

text \<open>\<^verbatim>\<open>ToBoolean\<close>, as used by \<^verbatim>\<open>||\<close> and \<^verbatim>\<open>&&\<close>.\<close>

fun truthy_json :: "json \<Rightarrow> bool" where
  "truthy_json JNull = False"
| "truthy_json (JBool b) = b"
| "truthy_json (JNum x) = (x \<noteq> 0)"
| "truthy_json (JStr s) = (s \<noteq> [])"
| "truthy_json (JArr _) = True"
| "truthy_json (JObj _) = True"

fun truthy :: "js_value \<Rightarrow> bool" where
  "truthy Undefined = False"
| "truthy (Val v) = truthy_json v"

text \<open>\<^verbatim>\<open>Array.prototype.join\<close> with separator \<open>","\<close>, on elements already converted.\<close>

fun join_comma :: "(thrown + js_string) list \<Rightarrow> thrown + js_string" where
  "join_comma [] = Inr []"
| "join_comma [x] = x"
| "join_comma (x # y # ys) =
     (case x of
        Inl e \<Rightarrow> Inl e
      | Inr s \<Rightarrow> (case join_comma (y # ys) of Inl e \<Rightarrow> Inl e | Inr t \<Rightarrow> Inr (s @ str '','' @ t)))"

text \<open>
  \<^verbatim>\<open>ToString\<close> of a parsed JSON value. An array is joined with commas, \<^verbatim>\<open>null\<close>
  elements giving the empty string. An object gives \<open>[object Object]\<close>, unless it has
  a member named \<open>toString\<close>: that member hides \<^verbatim>\<open>Object.prototype.toString\<close> and is not
  callable, and the conversion throws a \<^verbatim>\<open>TypeError\<close>.
\<close>

fun ToString :: "env \<Rightarrow> json \<Rightarrow> thrown + js_string" where
  "ToString e JNull = Inr (str ''null'')"
| "ToString e (JBool b) = Inr (if b then str ''true'' else str ''false'')"
| "ToString e (JNum x) = Inr (number_to_string e x)"
| "ToString e (JStr s) = Inr s"
| "ToString e (JArr xs) =
     join_comma (map (\<lambda>x. if x = JNull then Inr [] else ToString e x) xs)"
| "ToString e (JObj members) =
     (if str ''toString'' \<in> fst ` set members then Inl (Error (to_primitive_message e))
      else Inr (str ''[object Object]''))"

text \<open>
  Whether \<^verbatim>\<open>v.toLocaleString()\<close> throws, for a parsed JSON value \<open>v\<close>. On \<^verbatim>\<open>null\<close> the
  property cannot be read. Numbers have their own method; booleans and strings inherit
  \<^verbatim>\<open>Object.prototype.toLocaleString\<close>, which calls \<^verbatim>\<open>toString\<close>. An array calls
  \<^verbatim>\<open>toLocaleString\<close> on each element that is not \<^verbatim>\<open>null\<close>. An object throws when it has a
  member named \<open>toLocaleString\<close> or \<open>toString\<close>: the member hides the inherited
  method and is not callable.
\<close>

fun toLocaleString_throws :: "json \<Rightarrow> bool" where
  "toLocaleString_throws JNull = True"
| "toLocaleString_throws (JBool b) = False"
| "toLocaleString_throws (JNum x) = False"
| "toLocaleString_throws (JStr s) = False"
| "toLocaleString_throws (JArr xs) =
     list_ex (\<lambda>x. x \<noteq> JNull \<and> toLocaleString_throws x) xs"
| "toLocaleString_throws (JObj members) =
     (str ''toLocaleString'' \<in> fst ` set members \<or> str ''toString'' \<in> fst ` set members)"

subsection \<open>The API types (\<open>types/api.ts\<close>)\<close>

record SearchRequest =
  repo_url :: js_string
  weight_purpose :: real
  weight_stack :: real
  limit :: real
  min_stars :: real

record SearchResultItem =
  full_name :: js_string
  url :: js_string
  description :: "js_string option"
  topics :: "js_string list"
  language_primary :: "js_string option"
  stars :: real
  similarity_score :: real
  purpose_score :: real
  stack_score :: real

record QueryRepo =
  full_name :: js_string
  description :: "js_string option"

record SearchResponse =
  query_repo :: QueryRepo
  results :: "SearchResultItem list"
  indexed_count :: real
  search_time_ms :: real

text \<open>
  TypeScript types are erased when the program runs: a value of an interface type is the
  JSON object with the interface's members. \<^verbatim>\<open>string | null\<close> is a string or
  \<^verbatim>\<open>null\<close>; an optional member may be missing.
\<close>

definition nullable :: "js_string option \<Rightarrow> json" where
  "nullable s = (case s of None \<Rightarrow> JNull | Some t \<Rightarrow> JStr t)"

definition SearchRequest_json :: "SearchRequest \<Rightarrow> json" where
  "SearchRequest_json p =
     JObj [(str ''repo_url'', JStr (repo_url p)),
           (str ''weight_purpose'', JNum (weight_purpose p)),
           (str ''weight_stack'', JNum (weight_stack p)),
           (str ''limit'', JNum (limit p)),
           (str ''min_stars'', JNum (min_stars p))]"

definition SearchResultItem_json :: "SearchResultItem \<Rightarrow> json" where
  "SearchResultItem_json r =
     JObj [(str ''full_name'', JStr (SearchResultItem.full_name r)),
           (str ''url'', JStr (SearchResultItem.url r)),
           (str ''description'', nullable (SearchResultItem.description r)),
           (str ''topics'', JArr (map JStr (SearchResultItem.topics r))),
           (str ''language_primary'', nullable (SearchResultItem.language_primary r)),
           (str ''stars'', JNum (SearchResultItem.stars r)),
           (str ''similarity_score'', JNum (similarity_score r)),
           (str ''purpose_score'', JNum (purpose_score r)),
           (str ''stack_score'', JNum (stack_score r))]"

definition QueryRepo_json :: "QueryRepo \<Rightarrow> json" where
  "QueryRepo_json q =
     JObj ((str ''full_name'', JStr (QueryRepo.full_name q))
           # (case QueryRepo.description q of
                None \<Rightarrow> []
              | Some d \<Rightarrow> [(str ''description'', JStr d)]))"

definition SearchResponse_json :: "SearchResponse \<Rightarrow> json" where
  "SearchResponse_json r =
     JObj [(str ''query_repo'', QueryRepo_json (query_repo r)),
           (str ''results'', JArr (map SearchResultItem_json (results r))),
           (str ''indexed_count'', JNum (indexed_count r)),
           (str ''search_time_ms'', JNum (search_time_ms r))]"

subsection \<open>The API client (\<open>searchRepos\<close>)\<close>

text \<open>
  The request \<^verbatim>\<open>searchRepos\<close> hands to \<^verbatim>\<open>fetch\<close>. \<open>req_body\<close> is the value given to
  \<^verbatim>\<open>JSON.stringify\<close>; the text it is serialised to is not modelled.
\<close>

definition search_request :: "env \<Rightarrow> SearchRequest \<Rightarrow> request" where
  "search_request e params =
     \<lparr>req_url = API_BASE e @ str ''/api/search'',
      req_method = str ''POST'',
      req_headers = [(str ''Content-Type'', str ''application/json'')],
      req_body = SearchRequest_json params\<rparr>"

text \<open>\<^verbatim>\<open>d || fallback\<close> for a property that was read.\<close>

definition or_else :: "js_value \<Rightarrow> json \<Rightarrow> json" where
  "or_else d fallback =
     (case d of Undefined \<Rightarrow> fallback | Val v \<Rightarrow> if truthy_json v then v else fallback)"

text \<open>
  \<^verbatim>\<open>const res = await fetchWithTimeout(...);
if (!res.ok) {
  const err = await res.json().catch(() => ({ detail: "Search failed" }));
  throw new Error(err.detail || "Search failed");
}
return res.json();\<close>
  \<open>Inl\<close> is a rejected promise, \<open>Inr\<close> a fulfilled one. \<^verbatim>\<open>new Error(v)\<close> stores
  \<^verbatim>\<open>ToString(v)\<close> as the message.
\<close>

definition searchRepos :: "env \<Rightarrow> SearchRequest \<Rightarrow> thrown + json" where
  "searchRepos e params =
     (case fetch e (search_request e params) of
        Inl x \<Rightarrow> Inl x
      | Inr res \<Rightarrow>
          if \<not> ok res then
            (let err = (case res_json res of
                          Inl _ \<Rightarrow> JObj [(str ''detail'', JStr (str ''Search failed''))]
                        | Inr j \<Rightarrow> j)
             in case get_field e err (str ''detail'') of
                  Inl x \<Rightarrow> Inl x
                | Inr d \<Rightarrow>
                    (case ToString e (or_else d (JStr (str ''Search failed''))) of
                       Inl x \<Rightarrow> Inl x
                     | Inr message \<Rightarrow> Inl (Error message)))
          else res_json res)"

subsection \<open>The weight slider (\<open>WeightSliders\<close>)\<close>









subsection \<open>The application (\<open>App\<close>)\<close>

text \<open>
  The state hooks of \<open>App\<close>. \<open>error\<close> is a string or \<^verbatim>\<open>null\<close> (\<open>None\<close>);
  \<open>searchResult\<close> is the parsed response or \<^verbatim>\<open>null\<close> (\<open>JNull\<close>).
\<close>

record app_state =
  loading :: bool
  error :: "js_string option"
  searchResult :: json
  purposeWeight :: real
  indexedCount :: js_value

definition initial_state :: app_state where
  "initial_state =
     \<lparr>loading = False, error = None, searchResult = JNull,
      purposeWeight = literal_0_7, indexedCount = Val (JNum 0)\<rparr>"

text \<open>The argument \<open>handleSearch\<close> gives to \<open>searchRepos\<close>.\<close>

definition handleSearch_params :: "app_state \<Rightarrow> js_string \<Rightarrow> SearchRequest" where
  "handleSearch_params st u =
     \<lparr>repo_url = u,
      weight_purpose = purposeWeight st,
      weight_stack = js_div (Math_round (js_mul (js_sub 1 (purposeWeight st)) 100)) 100,
      limit = 20,
      min_stars = 0\<rparr>"

text \<open>
  \<^verbatim>\<open>catch (e) { setError(e instanceof Error ? e.message : "Search failed"); }\<close>
\<close>

definition catch_error :: "thrown \<Rightarrow> app_state \<Rightarrow> app_state" where
  "catch_error x st =
     st\<lparr>error := Some (case x of Error message \<Rightarrow> message | NonError \<Rightarrow> str ''Search failed'')\<rparr>"

text \<open>
  The state once \<open>handleSearch\<close> has run to its end: the three resets, then the
  \<open>try\<close> block (\<^verbatim>\<open>setSearchResult(result); setIndexedCount(result.indexed_count)\<close>) or
  the \<open>catch\<close> block, then \<^verbatim>\<open>setLoading(false)\<close>.
\<close>

definition handleSearch :: "env \<Rightarrow> app_state \<Rightarrow> js_string \<Rightarrow> app_state" where
  "handleSearch e st u =
     (let st1 = st\<lparr>loading := True, error := None, searchResult := JNull\<rparr> in
      case searchRepos e (handleSearch_params st u) of
        Inl x \<Rightarrow> (catch_error x st1)\<lparr>loading := False\<rparr>
      | Inr result \<Rightarrow>
          (let st2 = st1\<lparr>searchResult := result\<rparr> in
           case get_field e result (str ''indexed_count'') of
             Inl x \<Rightarrow> (catch_error x st2)\<lparr>loading := False\<rparr>
           | Inr c \<Rightarrow> st2\<lparr>indexedCount := c, loading := False\<rparr>))"

text \<open>
  The element \<open>App\<close> returns, as far as it depends on the state:
  \<^verbatim>\<open>{loading && <LoadingState />}
{error && (<div className="error-banner" role="alert" ...>...<span>{error}</span></div>)}
{searchResult && !loading && (
  <ResultsList
    results={searchResult.results}
    indexedCount={searchResult.indexed_count}
    searchTimeMs={searchResult.search_time_ms}
    queryRepo={searchResult.query_repo.full_name}
  />
)}
...
<strong>{indexedCount.toLocaleString()}</strong> indexed repositories\<close>
  \<open>alert\<close> is the text of the banner and \<open>results_list\<close> the props of the
  \<open>ResultsList\<close> element. The props are evaluated by \<open>App\<close>, and so is the count of the
  footer: when one of them throws, \<open>App\<close> returns nothing (\<open>None\<close>). What
  \<open>ResultsList\<close> makes of its props is not part of this element.
\<close>

record results_props =
  results_prop :: js_value
  indexedCount_prop :: js_value
  searchTimeMs_prop :: js_value
  queryRepo_prop :: js_value

record view =
  loading_state :: bool
  alert :: "js_string option"
  results_list :: "results_props option"

text \<open>
  The four props, read from the response. \<^verbatim>\<open>searchResult.query_repo.full_name\<close> throws
  when \<open>query_repo\<close> is missing or \<^verbatim>\<open>null\<close>.
\<close>

definition ResultsList_props :: "env \<Rightarrow> json \<Rightarrow> results_props option" where
  "ResultsList_props e r =
     (case get_field e r (str ''results'') of
        Inl _ \<Rightarrow> None
      | Inr rs \<Rightarrow>
     (case get_field e r (str ''indexed_count'') of
        Inl _ \<Rightarrow> None
      | Inr c \<Rightarrow>
     (case get_field e r (str ''search_time_ms'') of
        Inl _ \<Rightarrow> None
      | Inr t \<Rightarrow>
     (case get_field e r (str ''query_repo'') of
        Inl _ \<Rightarrow> None
      | Inr Undefined \<Rightarrow> None
      | Inr (Val q) \<Rightarrow>
     (case get_field e q (str ''full_name'') of
        Inl _ \<Rightarrow> None
      | Inr name \<Rightarrow>
          Some \<lparr>results_prop = rs, indexedCount_prop = c, searchTimeMs_prop = t,
                queryRepo_prop = name\<rparr>)))))"

text \<open>\<^verbatim>\<open>indexedCount.toLocaleString()\<close> in the footer: whether it throws.\<close>

definition footer_throws :: "js_value \<Rightarrow> bool" where
  "footer_throws c = (case c of Undefined \<Rightarrow> True | Val v \<Rightarrow> toLocaleString_throws v)"

definition render :: "env \<Rightarrow> app_state \<Rightarrow> view option" where
  "render e st =
     (case (if truthy_json (searchResult st) \<and> \<not> loading st
            then map_option Some (ResultsList_props e (searchResult st))
            else Some None) of
        None \<Rightarrow> None
      | Some props \<Rightarrow>
          if footer_throws (indexedCount st) then None
          else Some \<lparr>loading_state = loading st,
                     alert = (case error st of
                                None \<Rightarrow> None
                              | Some m \<Rightarrow> if m \<noteq> [] then Some m else None),
                     results_list = props\<rparr>)"

subsection \<open>The search form (\<open>SearchInput\<close>)\<close>

text \<open>
  The code units \<^verbatim>\<open>String.prototype.trim\<close> removes: ECMAScript's \<open>WhiteSpace\<close> (tab,
  vertical tab, form feed, the byte order mark and the space separators) and
  \<open>LineTerminator\<close> (line feed, carriage return, line and paragraph separator).
\<close>

definition is_ws :: "nat \<Rightarrow> bool" where
  "is_ws c \<longleftrightarrow>
     c \<in> {9, 10, 11, 12, 13, 32, 160, 5760, 8232, 8233, 8239, 8287, 12288, 65279}
     \<or> (8192 \<le> c \<and> c \<le> 8202)"

definition trim :: "js_string \<Rightarrow> js_string" where
  "trim s = rev (dropWhile is_ws (rev (dropWhile is_ws s)))"

text \<open>
  \<^verbatim>\<open>if (url.trim()) onSearch(url.trim());\<close>: the result is the list of calls made to
  \<open>onSearch\<close>, each with its argument. A string is truthy when it is not empty.
\<close>

definition handleSubmit :: "js_string \<Rightarrow> js_string list" where
  "handleSubmit u = (if trim u \<noteq> [] then [trim u] else [])"

text \<open>\<^verbatim>\<open>disabled={isLoading || !url.trim()}\<close> on the submit button.\<close>

definition submit_disabled :: "bool \<Rightarrow> js_string \<Rightarrow> bool" where
  "submit_disabled isLoading u \<longleftrightarrow> isLoading \<or> trim u = []"

subsection \<open>The theme hook (\<open>useTheme\<close>)\<close>

definition STORAGE_KEY :: js_string where
  "STORAGE_KEY = str ''reporadar-theme''"

text \<open>
  \<open>localStorage\<close> is a map from keys to strings; \<^verbatim>\<open>getItem\<close> of a missing key is
  \<^verbatim>\<open>null\<close>. \<open>prefers_dark\<close> is the answer of
  \<^verbatim>\<open>window.matchMedia('(prefers-color-scheme: dark)').matches\<close>.
\<close>

definition getInitialTheme :: "(js_string \<rightharpoonup> js_string) \<Rightarrow> bool \<Rightarrow> js_string" where
  "getInitialTheme storage prefers_dark =
     (case storage STORAGE_KEY of
        Some saved \<Rightarrow>
          if saved = str ''light'' \<or> saved = str ''dark'' then saved
          else if prefers_dark then str ''dark'' else str ''light''
      | None \<Rightarrow> if prefers_dark then str ''dark'' else str ''light'')"

record theme_state =
  theme :: js_string
  localStorage :: "js_string \<rightharpoonup> js_string"

text \<open>
  \<^verbatim>\<open>setTheme((prev) => {
  const next = prev === 'light' ? 'dark' : 'light'
  localStorage.setItem(STORAGE_KEY, next)
  return next
})\<close>
\<close>

definition toggleTheme :: "theme_state \<Rightarrow> theme_state" where
  "toggleTheme st =
     (let next = (if theme st = str ''light'' then str ''dark'' else str ''light'') in
      st\<lparr>theme := next, localStorage := (localStorage st)(STORAGE_KEY \<mapsto> next)\<rparr>)"

text \<open>The hook's first state, and the states it can reach by toggling.\<close>

definition useTheme_initial :: "(js_string \<rightharpoonup> js_string) \<Rightarrow> bool \<Rightarrow> theme_state" where
  "useTheme_initial storage prefers_dark =
     \<lparr>theme = getInitialTheme storage prefers_dark, localStorage = storage\<rparr>"

fun toggles :: "nat \<Rightarrow> theme_state \<Rightarrow> theme_state" where
  "toggles 0 st = st"
| "toggles (Suc n) st = toggles n (toggleTheme st)"

subsection \<open>A concrete environment\<close>

text \<open>
  An environment whose network answers every request with the response \<open>res\<close>, for
  running the definitions on concrete inputs.
\<close>

definition env_with :: "response \<Rightarrow> env" where
  "env_with res =
     \<lparr>API_BASE = str ''http://localhost:8000'',
      fetch = (\<lambda>_. Inr res),
      number_to_string = (\<lambda>_. str ''0''),
      null_read_message = str ''Cannot read properties of null'',
      to_primitive_message = str ''Cannot convert object to primitive value''\<rparr>"

section \<open>Properties of the rounding\<close>










text \<open>The definitions that evaluate \<open>fl\<close> on a numeral.\<close>

lemmas double_defs = fl_def pow2_def binade_def round_half_even_def tie_to_even_def
  round_to_multiple_def compute_bitlen

section \<open>Properties of the merge\<close>

lemma map_of_add_purpose:
  "map_of (add_purpose scores r) =
     (map_of scores)(point_id r \<mapsto> \<lparr>purpose = point_score r, stack = 0, payload = point_payload r\<rparr>)"
  by (simp add: add_purpose_def update_conv')

lemma map_of_add_stack:
  "map_of (add_stack scores r) =
     (map_of scores)(point_id r \<mapsto>
        (case map_of scores (point_id r) of
           Some d \<Rightarrow> d\<lparr>stack := point_score r\<rparr>
         | None \<Rightarrow> \<lparr>purpose = 0, stack = point_score r, payload = point_payload r\<rparr>))"
  by (simp add: add_stack_def update_conv' split: option.split)

lemma keys_add_purpose:
  "fst ` set (add_purpose scores r) = insert (point_id r) (fst ` set scores)"
  by (simp add: add_purpose_def dom_update)

lemma keys_add_stack:
  "fst ` set (add_stack scores r) = insert (point_id r) (fst ` set scores)"
  by (simp add: add_stack_def dom_update split: option.split)

lemma distinct_add_purpose:
  "distinct (map fst scores) \<Longrightarrow> distinct (map fst (add_purpose scores r))"
  by (simp add: add_purpose_def distinct_update)

lemma distinct_add_stack:
  "distinct (map fst scores) \<Longrightarrow> distinct (map fst (add_stack scores r))"
  by (simp add: add_stack_def distinct_update split: option.split)

lemma keys_foldl_add_purpose:
  "fst ` set (foldl add_purpose acc ps) = fst ` set acc \<union> point_id ` set ps"
  by (induction ps arbitrary: acc) (auto simp: keys_add_purpose)

lemma keys_foldl_add_stack:
  "fst ` set (foldl add_stack acc ss) = fst ` set acc \<union> point_id ` set ss"
  by (induction ss arbitrary: acc) (auto simp: keys_add_stack)

lemma distinct_foldl_add_purpose:
  "distinct (map fst acc) \<Longrightarrow> distinct (map fst (foldl add_purpose acc ps))"
  by (induction ps arbitrary: acc) (auto simp: distinct_add_purpose)

lemma distinct_foldl_add_stack:
  "distinct (map fst acc) \<Longrightarrow> distinct (map fst (foldl add_stack acc ss))"
  by (induction ss arbitrary: acc) (auto simp: distinct_add_stack)

lemma keys_merge_scores:
  "fst ` set (merge_scores ps ss) = point_id ` set ps \<union> point_id ` set ss"
  by (simp add: merge_scores_def keys_foldl_add_purpose keys_foldl_add_stack)

lemma distinct_merge_scores: "distinct (map fst (merge_scores ps ss))"
  by (simp add: merge_scores_def distinct_foldl_add_purpose distinct_foldl_add_stack)

lemma foldl_add_purpose_other:
  "i \<notin> point_id ` set ps \<Longrightarrow> map_of (foldl add_purpose acc ps) i = map_of acc i"
  by (induction ps arbitrary: acc) (auto simp: map_of_add_purpose)

lemma foldl_add_stack_other:
  "i \<notin> point_id ` set ss \<Longrightarrow> map_of (foldl add_stack acc ss) i = map_of acc i"
  by (induction ss arbitrary: acc) (auto simp: map_of_add_stack)

lemma foldl_add_purpose_hit:
  "distinct (map point_id ps) \<Longrightarrow> r \<in> set ps \<Longrightarrow>
   map_of (foldl add_purpose acc ps) (point_id r) =
     Some \<lparr>purpose = point_score r, stack = 0, payload = point_payload r\<rparr>"
proof (induction ps arbitrary: acc)
  case Nil
  then show ?case by simp
next
  case (Cons p ps)
  show ?case
  proof (cases "r = p")
    case True
    with Cons.prems have "point_id r \<notin> point_id ` set ps" by auto
    then show ?thesis unfolding True
      by (simp add: foldl_add_purpose_other map_of_add_purpose)
  next
    case False
    with Cons show ?thesis by auto
  qed
qed

lemma foldl_add_stack_hit:
  "distinct (map point_id ss) \<Longrightarrow> r \<in> set ss \<Longrightarrow>
   map_of (foldl add_stack acc ss) (point_id r) =
     Some (case map_of acc (point_id r) of
             Some d \<Rightarrow> d\<lparr>stack := point_score r\<rparr>
           | None \<Rightarrow> \<lparr>purpose = 0, stack = point_score r, payload = point_payload r\<rparr>)"
proof (induction ss arbitrary: acc)
  case Nil
  then show ?case by simp
next
  case (Cons s ss)
  show ?case
  proof (cases "r = s")
    case True
    with Cons.prems have "point_id r \<notin> point_id ` set ss" by auto
    then show ?thesis unfolding True
      by (simp add: foldl_add_stack_other map_of_add_stack)
  next
    case False
    with Cons.prems have r: "r \<in> set ss" and d: "distinct (map point_id ss)"
      and ne: "point_id r \<noteq> point_id s" by (auto simp: image_iff)
    show ?thesis
      using Cons.IH [OF d r, of "add_stack acc s"] ne
      by (simp add: map_of_add_stack)
  qed
qed

text \<open>
  Claim C1. In the dual-vector merge, every candidate returned by exactly one of the two
  vector-space queries is in the merged candidate map, with score \<open>0\<close> for the
  dimension that did not return it and with its payload unchanged; the keys of the merged
  map are exactly the identifiers returned by either query, so no candidate is left out.
  In particular a candidate in the purpose top-K only has \<open>stack = 0\<close>. Each query
  returns a point at most once, which is the hypothesis on the two result lists.
\<close>

theorem merge_keeps_single_space_candidates:
  assumes "distinct (map point_id purpose_results)"
    and "distinct (map point_id stack_results)"
  shows "fst ` set (merge_scores purpose_results stack_results) =
           point_id ` set purpose_results \<union> point_id ` set stack_results
       \<and> (\<forall>r \<in> set purpose_results. point_id r \<notin> point_id ` set stack_results \<longrightarrow>
           map_of (merge_scores purpose_results stack_results) (point_id r) =
             Some \<lparr>purpose = point_score r, stack = 0, payload = point_payload r\<rparr>)
       \<and> (\<forall>r \<in> set stack_results. point_id r \<notin> point_id ` set purpose_results \<longrightarrow>
           map_of (merge_scores purpose_results stack_results) (point_id r) =
             Some \<lparr>purpose = 0, stack = point_score r, payload = point_payload r\<rparr>)"
proof (intro conjI)
  show "fst ` set (merge_scores purpose_results stack_results) =
           point_id ` set purpose_results \<union> point_id ` set stack_results"
    by (rule keys_merge_scores)
  show "\<forall>r \<in> set purpose_results. point_id r \<notin> point_id ` set stack_results \<longrightarrow>
           map_of (merge_scores purpose_results stack_results) (point_id r) =
             Some \<lparr>purpose = point_score r, stack = 0, payload = point_payload r\<rparr>"
    using assms(1)
    by (simp add: merge_scores_def foldl_add_stack_other foldl_add_purpose_hit)
  show "\<forall>r \<in> set stack_results. point_id r \<notin> point_id ` set purpose_results \<longrightarrow>
           map_of (merge_scores purpose_results stack_results) (point_id r) =
             Some \<lparr>purpose = 0, stack = point_score r, payload = point_payload r\<rparr>"
    using assms(2)
    by (simp add: merge_scores_def foldl_add_stack_hit foldl_add_purpose_other)
qed

theorem merge_keeps_single_space_candidates_witness:
  "distinct (map point_id
      [\<lparr>point_id = 1, point_score = 9/10, point_payload = ''a''\<rparr>,
       \<lparr>point_id = 2, point_score = 8/10, point_payload = ''b''\<rparr>])
   \<and> distinct (map point_id
      [\<lparr>point_id = 3, point_score = 7/10, point_payload = ''c''\<rparr>,
       \<lparr>point_id = 2, point_score = 6/10, point_payload = ''b''\<rparr>])
   \<and> map_of (merge_scores
        [\<lparr>point_id = 1, point_score = 9/10, point_payload = ''a''\<rparr>,
         \<lparr>point_id = 2, point_score = 8/10, point_payload = ''b''\<rparr>]
        [\<lparr>point_id = 3, point_score = 7/10, point_payload = ''c''\<rparr>,
         \<lparr>point_id = 2, point_score = 6/10, point_payload = ''b''\<rparr>]) 1
      = Some \<lparr>purpose = 9/10, stack = 0, payload = ''a''\<rparr>
   \<and> map_of (merge_scores
        [\<lparr>point_id = 1, point_score = 9/10, point_payload = ''a''\<rparr>,
         \<lparr>point_id = 2, point_score = 8/10, point_payload = ''b''\<rparr>]
        [\<lparr>point_id = 3, point_score = 7/10, point_payload = ''c''\<rparr>,
         \<lparr>point_id = 2, point_score = 6/10, point_payload = ''b''\<rparr>]) 3
      = Some \<lparr>purpose = 0, stack = 7/10, payload = ''c''\<rparr>"
  using merge_keeps_single_space_candidates
    [of "[\<lparr>point_id = 1, point_score = 9/10, point_payload = ''a''\<rparr>,
          \<lparr>point_id = 2, point_score = 8/10, point_payload = ''b''\<rparr>]"
        "[\<lparr>point_id = 3, point_score = 7/10, point_payload = ''c''\<rparr>,
          \<lparr>point_id = 2, point_score = 6/10, point_payload = ''b''\<rparr>]"]
  by simp

section \<open>Properties of the ranking\<close>




lemma rank_loop_eq:
  "rank_loop wp ws ms scores = map (to_result wp ws) (retained wp ws ms scores)"
  by (induction wp ws ms scores rule: rank_loop.induct)
     (simp_all add: to_result_def retained_def Let_def)

lemma insort_key_map:
  "insort_key f (g x) (map g ys) = map g (insort_key (\<lambda>y. f (g y)) x ys)"
  by (induction ys) simp_all

lemma sort_key_map:
  "sort_key f (map g xs) = map g (sort_key (\<lambda>y. f (g y)) xs)"
  by (induction xs) (simp_all add: insort_key_map)



lemma set_py_slice_to_subset: "set (py_slice_to k xs) \<subseteq> set xs"
  by (simp add: py_slice_to_def set_take_subset)

lemma py_slice_to_all: "int (length xs) \<le> k \<Longrightarrow> py_slice_to k xs = xs"
  by (simp add: py_slice_to_def)

lemma length_py_slice_to:
  "length (py_slice_to k xs)
     = (if 0 \<le> k then min (nat k) (length xs) else length xs - nat (- k))"
  by (simp add: py_slice_to_def min.commute)

lemma search_similar_eq:
  "search_similar ps ss wp ws k ms =
     py_slice_to k (map (to_result wp ws)
       (sort_key (\<lambda>c. - final_score wp ws (snd c))
          (retained wp ws ms (merge_scores ps ss))))"
  by (simp add: search_similar_def sort_by_score_desc_def rank_loop_eq sort_key_map
      to_result_def)

lemma set_search_similar_subset:
  "set (search_similar ps ss wp ws k ms)
     \<subseteq> to_result wp ws ` set (retained wp ws ms (merge_scores ps ss))"
  unfolding search_similar_eq
  by (rule subset_trans [OF set_py_slice_to_subset]) simp

lemma set_search_similar_full:
  "int (length (retained wp ws ms (merge_scores ps ss))) \<le> k \<Longrightarrow>
   set (search_similar ps ss wp ws k ms)
     = to_result wp ws ` set (retained wp ws ms (merge_scores ps ss))"
  unfolding search_similar_eq by (simp add: py_slice_to_all)

lemma length_search_similar:
  "length (search_similar ps ss wp ws k ms)
     = (if 0 \<le> k then min (nat k) (length (retained wp ws ms (merge_scores ps ss)))
        else length (retained wp ws ms (merge_scores ps ss)) - nat (- k))"
  by (simp add: search_similar_eq length_py_slice_to)

lemma map_of_merge_scores_iff:
  "map_of (merge_scores ps ss) i = Some d \<longleftrightarrow> (i, d) \<in> set (merge_scores ps ss)"
  by (simp add: distinct_merge_scores)

lemma retained_iff:
  "(\<exists>d. map_of (merge_scores ps ss) i = Some d \<and> ms \<le> final_score wp ws d)
     \<longleftrightarrow> i \<in> fst ` set (retained wp ws ms (merge_scores ps ss))"
  by (force simp: map_of_merge_scores_iff retained_def)

lemma result_id_to_result: "result_id (to_result wp ws c) = fst c"
  by (simp add: to_result_def)

lemma sorted_wrt_sort_by_score_desc:
  "sorted_wrt (\<lambda>a b. result_score a \<ge> result_score b) (sort_by_score_desc ranked)"
proof -
  have "sorted (map (\<lambda>x. - result_score x) (sort_by_score_desc ranked))"
    unfolding sort_by_score_desc_def by (rule sorted_sort_key)
  then show ?thesis
    by (simp add: sorted_map) 
qed

lemma sort_by_score_desc_stable:
  "filter (\<lambda>x. result_score x = v) (sort_by_score_desc ranked)
     = filter (\<lambda>x. result_score x = v) ranked"
proof -
  have "filter (\<lambda>x. - result_score x = - v) (sort_by_score_desc ranked)
          = filter (\<lambda>x. - result_score x = - v) ranked"
    unfolding sort_by_score_desc_def by (rule sort_key_stable)
  then show ?thesis by simp
qed

text \<open>The order of the merged dictionary: purpose results, then the new stack results.\<close>

lemma keys_foldl_add_purpose_order:
  "distinct (map point_id ps) \<Longrightarrow> point_id ` set ps \<inter> fst ` set acc = {} \<Longrightarrow>
   map fst (foldl add_purpose acc ps) = map fst acc @ map point_id ps"
proof (induction ps arbitrary: acc)
  case Nil
  then show ?case by simp
next
  case (Cons p ps)
  from Cons.prems have new: "point_id p \<notin> fst ` set acc" by auto
  then have k: "map fst (add_purpose acc p) = map fst acc @ [point_id p]"
    by (simp add: add_purpose_def update_keys)
  then have "fst ` set (add_purpose acc p) = insert (point_id p) (fst ` set acc)"
    by (simp add: keys_add_purpose)
  with Cons.prems have "point_id ` set ps \<inter> fst ` set (add_purpose acc p) = {}"
    by auto
  moreover from Cons.prems have "distinct (map point_id ps)" by simp
  ultimately have "map fst (foldl add_purpose (add_purpose acc p) ps)
      = map fst (add_purpose acc p) @ map point_id ps"
    by (rule Cons.IH [rotated])
  with k show ?case by simp
qed

lemma keys_add_stack_order:
  "map fst (add_stack acc s)
     = (if point_id s \<in> fst ` set acc then map fst acc else map fst acc @ [point_id s])"
proof (cases "map_of acc (point_id s)")
  case None
  then have "point_id s \<notin> fst ` set acc"
    by (simp add: map_of_eq_None_iff)
  with None show ?thesis
    by (simp add: add_stack_def update_keys)
next
  case (Some d)
  then have "point_id s \<in> fst ` set acc"
    by (metis map_of_eq_None_iff option.distinct(1))
  with Some show ?thesis
    by (simp add: add_stack_def update_keys)
qed

lemma keys_foldl_add_stack_order:
  "distinct (map point_id ss) \<Longrightarrow>
   map fst (foldl add_stack acc ss)
     = map fst acc @ filter (\<lambda>i. i \<notin> fst ` set acc) (map point_id ss)"
proof (induction ss arbitrary: acc)
  case Nil
  then show ?case by simp
next
  case (Cons s ss)
  from Cons.prems have d: "distinct (map point_id ss)" and n: "point_id s \<notin> point_id ` set ss"
    by auto
  have ih: "map fst (foldl add_stack (add_stack acc s) ss)
      = map fst (add_stack acc s)
        @ filter (\<lambda>i. i \<notin> fst ` set (add_stack acc s)) (map point_id ss)"
    using d by (rule Cons.IH)
  have f: "filter (\<lambda>i. i \<notin> fst ` set (add_stack acc s)) (map point_id ss)
      = filter (\<lambda>i. i \<notin> fst ` set acc) (map point_id ss)"
  proof (rule filter_cong [OF refl])
    fix i assume "i \<in> set (map point_id ss)"
    with n have "i \<noteq> point_id s" by (metis set_map)
    then show "(i \<notin> fst ` set (add_stack acc s)) = (i \<notin> fst ` set acc)"
      by (simp add: keys_add_stack)
  qed
  show ?case
    using ih f by (simp add: keys_add_stack_order)
qed

lemma merge_scores_order:
  assumes "distinct (map point_id ps)" and "distinct (map point_id ss)"
  shows "map fst (merge_scores ps ss)
     = map point_id ps @ filter (\<lambda>i. i \<notin> point_id ` set ps) (map point_id ss)"
proof -
  have "map fst (foldl add_purpose [] ps) = map point_id ps"
    using assms(1) keys_foldl_add_purpose_order [of ps "[]"] by simp
  moreover have "fst ` set (foldl add_purpose [] ps) = point_id ` set ps"
    by (simp add: keys_foldl_add_purpose)
  ultimately show ?thesis
    using keys_foldl_add_stack_order [OF assms(2), of "foldl add_purpose [] ps"]
    by (simp add: merge_scores_def)
qed




lemmas score_defs = final_score_def py_add_def py_mul_def



text \<open>The doubles nearest to some decimal literals.\<close>

lemma decimal_literals:
  "fl (1/10) = 3602879701896397 / 36028797018963968"
  "fl (1/5) = 3602879701896397 / 18014398509481984"
  "fl (3/10) = 5404319552844595 / 18014398509481984"
  "fl (2/5) = 3602879701896397 / 9007199254740992"
  "fl (7/10) = 3152519739159347 / 4503599627370496"
  "fl (9/10) = 8106479329266893 / 9007199254740992"
  "fl (31/100) = 5584463537939415 / 18014398509481984"
  "fl (69/100) = 1553741871442821 / 2251799813685248"
  by (simp_all add: double_defs)

lemmas search_eval_defs = search_similar_def py_slice_to_def sort_by_score_desc_def
  merge_scores_def add_purpose_def add_stack_def final_score_def py_add_def py_mul_def Let_def


text \<open>
  Claim C3, as stated: the result list is sorted by descending similarity score, ties
  broken by descending star count and then by identifier. The code sorts on the score
  only: two candidates of score \<open>0.5\<close> come out in dictionary order, the one with 10
  stars before the one with 100.
\<close>

theorem tie_break_counterexample:
  "map result_id (search_similar
       [\<lparr>point_id = 1, point_score = 1/2, point_payload = repo ''a/a'' 10\<rparr>,
        \<lparr>point_id = 2, point_score = 1/2, point_payload = repo ''b/b'' 100\<rparr>] [] 1 0 20 0)
     = [1, 2]
   \<and> map result_score (search_similar
       [\<lparr>point_id = 1, point_score = 1/2, point_payload = repo ''a/a'' 10\<rparr>,
        \<lparr>point_id = 2, point_score = 1/2, point_payload = repo ''b/b'' 100\<rparr>] [] 1 0 20 0)
     = [1/2, 1/2]
   \<and> map (\<lambda>x. payload.stars (result_payload x)) (search_similar
       [\<lparr>point_id = 1, point_score = 1/2, point_payload = repo ''a/a'' 10\<rparr>,
        \<lparr>point_id = 2, point_score = 1/2, point_payload = repo ''b/b'' 100\<rparr>] [] 1 0 20 0)
     = [10, 100]
   \<and> \<not> sorted_wrt spec_ranks_before (search_similar
       [\<lparr>point_id = 1, point_score = 1/2, point_payload = repo ''a/a'' 10\<rparr>,
        \<lparr>point_id = 2, point_score = 1/2, point_payload = repo ''b/b'' 100\<rparr>] [] 1 0 20 0)"
  by (simp add: search_eval_defs double_defs spec_ranks_before_def repo_def)

text \<open>
  Claim C3, amended. There is a list \<open>full\<close> of all candidates whose score is at least
  \<open>min_score\<close>, sorted by descending similarity score, in which candidates of equal
  score keep the order of the merged dictionary; that order is the purpose results in
  their order, then the stack results not among them in theirs. The result is \<open>full\<close>
  cut by the slice \<^verbatim>\<open>[:limit]\<close>: its first \<open>limit\<close> entries when \<open>limit\<close> is not
  negative (so at most \<open>limit\<close> entries), all but its last \<open>-limit\<close> entries
  otherwise. Each query returns a point at most once.
\<close>

theorem search_similar_sorted_stable_truncated:
  assumes "distinct (map point_id ps)" and "distinct (map point_id ss)"
  shows "\<exists>full.
      (0 \<le> k \<longrightarrow> search_similar ps ss wp ws k ms = take (nat k) full)
    \<and> (k < 0 \<longrightarrow> search_similar ps ss wp ws k ms = take (length full - nat (- k)) full)
    \<and> sorted_wrt (\<lambda>a b. result_score a \<ge> result_score b) full
    \<and> (\<forall>v. filter (\<lambda>x. result_score x = v) full
          = filter (\<lambda>x. result_score x = v)
              (map (\<lambda>c. \<lparr>result_id = fst c, result_score = final_score wp ws (snd c),
                          result_payload = payload (snd c)\<rparr>)
                 (filter (\<lambda>c. ms \<le> final_score wp ws (snd c)) (merge_scores ps ss))))
    \<and> map fst (merge_scores ps ss)
        = map point_id ps @ filter (\<lambda>i. i \<notin> point_id ` set ps) (map point_id ss)"
proof -
  let ?cands = "map (\<lambda>c. \<lparr>result_id = fst c, result_score = final_score wp ws (snd c),
                          result_payload = payload (snd c)\<rparr>)
                 (filter (\<lambda>c. ms \<le> final_score wp ws (snd c)) (merge_scores ps ss))"
  let ?full = "sort_by_score_desc ?cands"
  have ranked: "rank_loop wp ws ms (merge_scores ps ss) = ?cands"
    by (simp add: rank_loop_eq to_result_def retained_def)
  have out: "search_similar ps ss wp ws k ms = py_slice_to k ?full"
    by (simp only: search_similar_def ranked)
  have "0 \<le> k \<longrightarrow> search_similar ps ss wp ws k ms = take (nat k) ?full"
    by (simp add: out py_slice_to_def)
  moreover have "k < 0 \<longrightarrow> search_similar ps ss wp ws k ms = take (length ?full - nat (- k)) ?full"
    by (simp add: out py_slice_to_def)
  moreover have "sorted_wrt (\<lambda>a b. result_score a \<ge> result_score b) ?full"
    by (rule sorted_wrt_sort_by_score_desc)
  moreover have "\<forall>v. filter (\<lambda>x. result_score x = v) ?full
      = filter (\<lambda>x. result_score x = v) ?cands"
    by (simp only: sort_by_score_desc_stable) simp
  moreover have "map fst (merge_scores ps ss)
        = map point_id ps @ filter (\<lambda>i. i \<notin> point_id ` set ps) (map point_id ss)"
    using assms by (rule merge_scores_order)
  ultimately show ?thesis
    by blast
qed

theorem search_similar_sorted_stable_truncated_witness:
  "distinct (map point_id
       [\<lparr>point_id = 1, point_score = 1/2, point_payload = ''a/a''\<rparr>,
        \<lparr>point_id = 2, point_score = 1/2, point_payload = ''b/b''\<rparr>,
        \<lparr>point_id = 3, point_score = 3/4, point_payload = ''c/c''\<rparr>])
   \<and> distinct (map point_id
       [\<lparr>point_id = 4, point_score = 7/8, point_payload = ''d/d''\<rparr>,
        \<lparr>point_id = 2, point_score = 1/4, point_payload = ''b/b''\<rparr>])
   \<and> map fst (merge_scores
       [\<lparr>point_id = 1, point_score = 1/2, point_payload = ''a/a''\<rparr>,
        \<lparr>point_id = 2, point_score = 1/2, point_payload = ''b/b''\<rparr>,
        \<lparr>point_id = 3, point_score = 3/4, point_payload = ''c/c''\<rparr>]
       [\<lparr>point_id = 4, point_score = 7/8, point_payload = ''d/d''\<rparr>,
        \<lparr>point_id = 2, point_score = 1/4, point_payload = ''b/b''\<rparr>]) = [1, 2, 3, 4]
   \<and> map result_id (search_similar
       [\<lparr>point_id = 1, point_score = 1/2, point_payload = ''a/a''\<rparr>,
        \<lparr>point_id = 2, point_score = 1/2, point_payload = ''b/b''\<rparr>,
        \<lparr>point_id = 3, point_score = 3/4, point_payload = ''c/c''\<rparr>]
       [\<lparr>point_id = 4, point_score = 7/8, point_payload = ''d/d''\<rparr>,
        \<lparr>point_id = 2, point_score = 1/4, point_payload = ''b/b''\<rparr>]
       1 0 20 0) = [3, 1, 2, 4]
   \<and> map result_id (search_similar
       [\<lparr>point_id = 1, point_score = 1/2, point_payload = ''a/a''\<rparr>,
        \<lparr>point_id = 2, point_score = 1/2, point_payload = ''b/b''\<rparr>,
        \<lparr>point_id = 3, point_score = 3/4, point_payload = ''c/c''\<rparr>]
       [\<lparr>point_id = 4, point_score = 7/8, point_payload = ''d/d''\<rparr>,
        \<lparr>point_id = 2, point_score = 1/4, point_payload = ''b/b''\<rparr>]
       1 0 2 0) = [3, 1]
   \<and> map result_id (search_similar
       [\<lparr>point_id = 1, point_score = 1/2, point_payload = ''a/a''\<rparr>,
        \<lparr>point_id = 2, point_score = 1/2, point_payload = ''b/b''\<rparr>,
        \<lparr>point_id = 3, point_score = 3/4, point_payload = ''c/c''\<rparr>]
       [\<lparr>point_id = 4, point_score = 7/8, point_payload = ''d/d''\<rparr>,
        \<lparr>point_id = 2, point_score = 1/4, point_payload = ''b/b''\<rparr>]
       1 0 (- 1) 0) = [3, 1, 2]"
proof -
  let ?P = "[\<lparr>point_id = 1, point_score = 1/2, point_payload = ''a/a''\<rparr>,
        \<lparr>point_id = 2, point_score = 1/2, point_payload = ''b/b''\<rparr>,
        \<lparr>point_id = 3, point_score = 3/4, point_payload = ''c/c''\<rparr>]"
  let ?S = "[\<lparr>point_id = 4, point_score = 7/8, point_payload = ''d/d''\<rparr>,
        \<lparr>point_id = 2, point_score = 1/4, point_payload = ''b/b''\<rparr>]"
  have d1: "distinct (map point_id ?P)" and d2: "distinct (map point_id ?S)"
    by simp_all
  from search_similar_sorted_stable_truncated [OF d1 d2, of 1 0 20 0]
  have "map fst (merge_scores ?P ?S)
      = map point_id ?P @ filter (\<lambda>i. i \<notin> point_id ` set ?P) (map point_id ?S)"
    by blast
  then have keys: "map fst (merge_scores ?P ?S) = [1, 2, 3, 4]"
    by simp
  have all: "map result_id (search_similar ?P ?S 1 0 20 0) = [3, 1, 2, 4]"
    by (simp add: search_eval_defs double_defs)
  have two: "map result_id (search_similar ?P ?S 1 0 2 0) = [3, 1]"
    by (simp add: search_eval_defs double_defs)
  have neg: "map result_id (search_similar ?P ?S 1 0 (- 1) 0) = [3, 1, 2]"
    by (simp add: search_eval_defs double_defs)
  from d1 d2 keys all two neg show ?thesis
    by blast
qed

text \<open>
  Claim C4, as stated: a merged candidate is in the output iff its score is at least
  \<open>min_score\<close> and it is not the query repository. \<open>search_similar\<close> has no query
  identifier: the query repository (identifier 1, score 1 in both spaces) is returned,
  first.
\<close>

theorem query_repo_not_excluded_counterexample:
  "map_of (merge_scores
       [\<lparr>point_id = 1, point_score = 1, point_payload = ''owner/repo''\<rparr>,
        \<lparr>point_id = 2, point_score = fl (9/10), point_payload = ''other/repo''\<rparr>]
       [\<lparr>point_id = 1, point_score = 1, point_payload = ''owner/repo''\<rparr>,
        \<lparr>point_id = 2, point_score = fl (2/10), point_payload = ''other/repo''\<rparr>]) 1
     = Some \<lparr>purpose = 1, stack = 1, payload = ''owner/repo''\<rparr>
   \<and> \<not> spec_retained 1 (fl (7/10)) (fl (3/10)) (fl (3/10))
         (1, \<lparr>purpose = 1, stack = 1, payload = ''owner/repo''\<rparr>)
   \<and> map result_id (search_similar
       [\<lparr>point_id = 1, point_score = 1, point_payload = ''owner/repo''\<rparr>,
        \<lparr>point_id = 2, point_score = fl (9/10), point_payload = ''other/repo''\<rparr>]
       [\<lparr>point_id = 1, point_score = 1, point_payload = ''owner/repo''\<rparr>,
        \<lparr>point_id = 2, point_score = fl (2/10), point_payload = ''other/repo''\<rparr>]
       (fl (7/10)) (fl (3/10)) 20 (fl (3/10))) = [1, 2]"
  by (simp add: search_eval_defs decimal_literals double_defs spec_retained_def)

text \<open>
  Claim C4, amended. A merged candidate is in the output of \<open>search_similar\<close> only if
  its weighted score, as computed in floating point, is at least \<open>min_score\<close>, whatever
  its identifier, and every such candidate is in the output when there are at most
  \<open>limit\<close> of them; the output has \<open>min limit n\<close> entries for a \<open>limit\<close> that is not
  negative, \<open>n\<close> the number of such candidates, and the last \<open>-limit\<close> are cut for a
  negative one. An instance is the scenario of weights \<open>0.7\<close> and \<open>0.3\<close> and scores
  \<open>0.9\<close> and \<open>0.2\<close>: the score is the float \<open>0.69\<close>, kept at \<open>min_score = 0.3\<close> and
  dropped at \<open>0.7\<close>; with scores \<open>0.4\<close> and \<open>0.1\<close> the score is just below \<open>0.31\<close>,
  and the candidate is kept at \<open>min_score = 0.3\<close> and dropped at \<open>0.31\<close>.
\<close>

theorem search_similar_retains_by_min_score:
  "(i \<in> result_id ` set (search_similar ps ss wp ws k ms) \<longrightarrow>
      (\<exists>d. map_of (merge_scores ps ss) i = Some d \<and> ms \<le> final_score wp ws d))
   \<and> (int (length (filter (\<lambda>c. ms \<le> final_score wp ws (snd c)) (merge_scores ps ss))) \<le> k \<longrightarrow>
      (\<exists>d. map_of (merge_scores ps ss) i = Some d \<and> ms \<le> final_score wp ws d) \<longrightarrow>
      i \<in> result_id ` set (search_similar ps ss wp ws k ms))
   \<and> (0 \<le> k \<longrightarrow> length (search_similar ps ss wp ws k ms)
       = min (nat k)
           (length (filter (\<lambda>c. ms \<le> final_score wp ws (snd c)) (merge_scores ps ss))))
   \<and> (k < 0 \<longrightarrow> length (search_similar ps ss wp ws k ms)
       = length (filter (\<lambda>c. ms \<le> final_score wp ws (snd c)) (merge_scores ps ss))
           - nat (- k))"
proof (intro conjI impI)
  assume "i \<in> result_id ` set (search_similar ps ss wp ws k ms)"
  then obtain x where x: "x \<in> set (search_similar ps ss wp ws k ms)" and i: "i = result_id x"
    by blast
  from x set_search_similar_subset [of ps ss wp ws k ms]
  obtain c where "c \<in> set (retained wp ws ms (merge_scores ps ss))" and "x = to_result wp ws c"
    by blast
  with i have "i \<in> fst ` set (retained wp ws ms (merge_scores ps ss))"
    by (simp add: result_id_to_result)
  then show "\<exists>d. map_of (merge_scores ps ss) i = Some d \<and> ms \<le> final_score wp ws d"
    by (simp only: retained_iff)
next
  assume "int (length (filter (\<lambda>c. ms \<le> final_score wp ws (snd c)) (merge_scores ps ss))) \<le> k"
    and e: "\<exists>d. map_of (merge_scores ps ss) i = Some d \<and> ms \<le> final_score wp ws d"
  then have full: "int (length (retained wp ws ms (merge_scores ps ss))) \<le> k"
    by (simp only: retained_def)
  from e have "i \<in> fst ` set (retained wp ws ms (merge_scores ps ss))"
    by (simp only: retained_iff)
  then obtain c where c: "c \<in> set (retained wp ws ms (merge_scores ps ss))" and i: "i = fst c"
    by blast
  from c have "to_result wp ws c \<in> set (search_similar ps ss wp ws k ms)"
    by (simp add: set_search_similar_full [OF full])
  then have "result_id (to_result wp ws c) \<in> result_id ` set (search_similar ps ss wp ws k ms)"
    by (rule imageI)
  then show "i \<in> result_id ` set (search_similar ps ss wp ws k ms)"
    by (simp add: result_id_to_result i)
next
  assume "0 \<le> k"
  then show "length (search_similar ps ss wp ws k ms)
       = min (nat k)
           (length (filter (\<lambda>c. ms \<le> final_score wp ws (snd c)) (merge_scores ps ss)))"
    by (simp add: length_search_similar retained_def)
next
  assume "k < 0"
  then show "length (search_similar ps ss wp ws k ms)
       = length (filter (\<lambda>c. ms \<le> final_score wp ws (snd c)) (merge_scores ps ss))
           - nat (- k)"
    by (simp add: length_search_similar retained_def)
qed

theorem search_similar_retains_by_min_score_witness:
  "final_score (fl (7/10)) (fl (3/10))
       \<lparr>purpose = fl (9/10), stack = fl (2/10), payload = ''other/repo''\<rparr> = fl (69/100)
   \<and> final_score (fl (7/10)) (fl (3/10))
       \<lparr>purpose = fl (4/10), stack = fl (1/10), payload = ''third/repo''\<rparr> < fl (31/100)
   \<and> map result_id (search_similar
       [\<lparr>point_id = 7, point_score = fl (9/10), point_payload = ''other/repo''\<rparr>,
        \<lparr>point_id = 8, point_score = fl (4/10), point_payload = ''third/repo''\<rparr>]
       [\<lparr>point_id = 7, point_score = fl (2/10), point_payload = ''other/repo''\<rparr>,
        \<lparr>point_id = 8, point_score = fl (1/10), point_payload = ''third/repo''\<rparr>]
       (fl (7/10)) (fl (3/10)) 20 (fl (3/10))) = [7, 8]
   \<and> map result_id (search_similar
       [\<lparr>point_id = 7, point_score = fl (9/10), point_payload = ''other/repo''\<rparr>,
        \<lparr>point_id = 8, point_score = fl (4/10), point_payload = ''third/repo''\<rparr>]
       [\<lparr>point_id = 7, point_score = fl (2/10), point_payload = ''other/repo''\<rparr>,
        \<lparr>point_id = 8, point_score = fl (1/10), point_payload = ''third/repo''\<rparr>]
       (fl (7/10)) (fl (3/10)) 20 (fl (7/10))) = []
   \<and> map result_id (search_similar
       [\<lparr>point_id = 7, point_score = fl (9/10), point_payload = ''other/repo''\<rparr>,
        \<lparr>point_id = 8, point_score = fl (4/10), point_payload = ''third/repo''\<rparr>]
       [\<lparr>point_id = 7, point_score = fl (2/10), point_payload = ''other/repo''\<rparr>,
        \<lparr>point_id = 8, point_score = fl (1/10), point_payload = ''third/repo''\<rparr>]
       (fl (7/10)) (fl (3/10)) 20 (fl (31/100))) = [7]
   \<and> 8 \<notin> result_id ` set (search_similar
       [\<lparr>point_id = 7, point_score = fl (9/10), point_payload = ''other/repo''\<rparr>,
        \<lparr>point_id = 8, point_score = fl (4/10), point_payload = ''third/repo''\<rparr>]
       [\<lparr>point_id = 7, point_score = fl (2/10), point_payload = ''other/repo''\<rparr>,
        \<lparr>point_id = 8, point_score = fl (1/10), point_payload = ''third/repo''\<rparr>]
       (fl (7/10)) (fl (3/10)) 20 (fl (31/100)))"
proof -
  let ?P = "[\<lparr>point_id = 7, point_score = fl (9/10), point_payload = ''other/repo''\<rparr>,
        \<lparr>point_id = 8, point_score = fl (4/10), point_payload = ''third/repo''\<rparr>]"
  let ?S = "[\<lparr>point_id = 7, point_score = fl (2/10), point_payload = ''other/repo''\<rparr>,
        \<lparr>point_id = 8, point_score = fl (1/10), point_payload = ''third/repo''\<rparr>]"
  have s7: "final_score (fl (7/10)) (fl (3/10))
       \<lparr>purpose = fl (9/10), stack = fl (2/10), payload = ''other/repo''\<rparr> = fl (69/100)"
    by (simp add: search_eval_defs decimal_literals double_defs)
  have s8: "final_score (fl (7/10)) (fl (3/10))
       \<lparr>purpose = fl (4/10), stack = fl (1/10), payload = ''third/repo''\<rparr> < fl (31/100)"
    by (simp add: search_eval_defs decimal_literals double_defs)
  have at3: "map result_id (search_similar ?P ?S (fl (7/10)) (fl (3/10)) 20 (fl (3/10))) = [7, 8]"
    by (simp add: search_eval_defs decimal_literals double_defs)
  have at7: "map result_id (search_similar ?P ?S (fl (7/10)) (fl (3/10)) 20 (fl (7/10))) = []"
    by (simp add: search_eval_defs decimal_literals double_defs)
  have at31: "map result_id (search_similar ?P ?S (fl (7/10)) (fl (3/10)) 20 (fl (31/100))) = [7]"
    by (simp add: search_eval_defs decimal_literals double_defs)
  have merged: "map_of (merge_scores ?P ?S) 8
      = Some \<lparr>purpose = fl (4/10), stack = fl (1/10), payload = ''third/repo''\<rparr>"
    by (simp add: merge_scores_def add_purpose_def add_stack_def)
  have "\<not> (\<exists>d. map_of (merge_scores ?P ?S) 8 = Some d
            \<and> fl (31/100) \<le> final_score (fl (7/10)) (fl (3/10)) d)"
    unfolding merged using s8 by simp
  with search_similar_retains_by_min_score
    [of 8 ?P ?S "fl (7/10)" "fl (3/10)" 20 "fl (31/100)"]
  have drop: "8 \<notin> result_id ` set (search_similar ?P ?S (fl (7/10)) (fl (3/10)) 20 (fl (31/100)))"
    by blast
  from s7 s8 at3 at7 at31 drop show ?thesis
    by blast
qed

section \<open>JavaScript strings\<close>

lemma str_eq_iff [simp]: "str a = str b \<longleftrightarrow> a = b"
  by (simp add: str_def inj_map_eq_map [OF inj_of_char])

lemma str_Nil_iff [simp]: "str a = [] \<longleftrightarrow> a = []"
  by (simp add: str_def)

lemma Nil_str_iff [simp]: "[] = str a \<longleftrightarrow> a = []"
  by (auto simp: str_def)

section \<open>Properties of the search form\<close>

lemma trim_Nil_iff: "trim u = [] \<longleftrightarrow> (\<forall>c \<in> set u. is_ws c)"
proof -
  have "trim u = [] \<longleftrightarrow> (\<forall>c \<in> set (dropWhile is_ws u). is_ws c)"
    by (simp add: trim_def dropWhile_eq_Nil_conv)
  also have "\<dots> \<longleftrightarrow> (\<forall>c \<in> set u. is_ws c)"
  proof
    assume a: "\<forall>c \<in> set (dropWhile is_ws u). is_ws c"
    then have "dropWhile is_ws u = []"
      by (metis hd_dropWhile hd_in_set)
    then show "\<forall>c \<in> set u. is_ws c"
      by (simp add: dropWhile_eq_Nil_conv)
  next
    assume "\<forall>c \<in> set u. is_ws c"
    then show "\<forall>c \<in> set (dropWhile is_ws u). is_ws c"
      using set_dropWhileD by metis
  qed
  finally show ?thesis .
qed

lemma trim_decompose:
  "u = takeWhile is_ws u @ trim u @ rev (takeWhile is_ws (rev (dropWhile is_ws u)))"
proof -
  let ?v = "dropWhile is_ws u"
  have "?v = rev (rev ?v)"
    by (simp only: rev_rev_ident)
  also have "\<dots> = rev (takeWhile is_ws (rev ?v) @ dropWhile is_ws (rev ?v))"
    by (simp only: takeWhile_dropWhile_id)
  also have "\<dots> = rev (dropWhile is_ws (rev ?v)) @ rev (takeWhile is_ws (rev ?v))"
    by (rule rev_append)
  finally have "?v = trim u @ rev (takeWhile is_ws (rev ?v))"
    by (simp only: trim_def)
  moreover have "u = takeWhile is_ws u @ ?v"
    by (simp only: takeWhile_dropWhile_id)
  ultimately show ?thesis
    by metis
qed

lemma trim_last: "trim u \<noteq> [] \<Longrightarrow> \<not> is_ws (last (trim u))"
proof -
  assume "trim u \<noteq> []"
  then have ne: "dropWhile is_ws (rev (dropWhile is_ws u)) \<noteq> []"
    by (simp add: trim_def)
  then have "\<not> is_ws (hd (dropWhile is_ws (rev (dropWhile is_ws u))))"
    by (rule hd_dropWhile)
  with ne show ?thesis
    by (simp add: trim_def last_rev)
qed

lemma trim_hd: "trim u \<noteq> [] \<Longrightarrow> \<not> is_ws (hd (trim u))"
proof -
  assume ne: "trim u \<noteq> []"
  let ?v = "dropWhile is_ws u"
  have v: "?v = trim u @ rev (takeWhile is_ws (rev ?v))"
    using trim_decompose [of u] by (metis takeWhile_dropWhile_id same_append_eq)
  with ne have "?v \<noteq> []" by (metis append_is_Nil_conv)
  then have "\<not> is_ws (hd ?v)" by (rule hd_dropWhile)
  moreover from v ne have "hd ?v = hd (trim u)"
    by (metis hd_append2)
  ultimately show ?thesis by simp
qed

text \<open>
  Claim C9. Submitting the search form calls \<open>onSearch\<close> exactly when the input has a
  character that is not whitespace, once, with the input stripped of its leading and
  trailing whitespace (what is removed on either side is whitespace only, and the argument
  neither starts nor ends with whitespace); for an empty or whitespace-only input no call
  is made and the submit button is disabled.
\<close>

theorem submit_calls_onSearch_with_trimmed_input:
  "((\<exists>c \<in> set u. \<not> is_ws c) \<longrightarrow>
      handleSubmit u = [trim u]
      \<and> (\<exists>before after. u = before @ trim u @ after
            \<and> (\<forall>c \<in> set before. is_ws c) \<and> (\<forall>c \<in> set after. is_ws c))
      \<and> \<not> is_ws (hd (trim u)) \<and> \<not> is_ws (last (trim u)))
   \<and> ((\<forall>c \<in> set u. is_ws c) \<longrightarrow>
      handleSubmit u = [] \<and> submit_disabled isLoading u)"
proof (intro conjI impI)
  assume "\<exists>c \<in> set u. \<not> is_ws c"
  then have ne: "trim u \<noteq> []"
    by (simp add: trim_Nil_iff)
  then show "handleSubmit u = [trim u]"
    by (simp add: handleSubmit_def)
  from ne show "\<not> is_ws (hd (trim u))" by (rule trim_hd)
  from ne show "\<not> is_ws (last (trim u))" by (rule trim_last)
  have "\<forall>c \<in> set (takeWhile is_ws u). is_ws c"
    by (metis set_takeWhileD)
  moreover have "\<forall>c \<in> set (rev (takeWhile is_ws (rev (dropWhile is_ws u)))). is_ws c"
    by (metis set_rev set_takeWhileD)
  ultimately show "\<exists>before after. u = before @ trim u @ after
            \<and> (\<forall>c \<in> set before. is_ws c) \<and> (\<forall>c \<in> set after. is_ws c)"
    using trim_decompose [of u] by blast
next
  assume "\<forall>c \<in> set u. is_ws c"
  then have "trim u = []" by (simp add: trim_Nil_iff)
  then show "handleSubmit u = []" and "submit_disabled isLoading u"
    by (simp_all add: handleSubmit_def submit_disabled_def)
qed

theorem submit_calls_onSearch_with_trimmed_input_witness:
  "102 \<in> set (str ''  facebook/react  '') \<and> \<not> is_ws 102
   \<and> handleSubmit (str ''  facebook/react  '') = [str ''facebook/react'']
   \<and> set (str ''   '') = {32} \<and> is_ws 32
   \<and> handleSubmit (str ''   '') = []
   \<and> submit_disabled False (str ''   '')"
  using submit_calls_onSearch_with_trimmed_input [of "str ''  facebook/react  ''" False]
    submit_calls_onSearch_with_trimmed_input [of "str ''   ''" False]
  by (simp add: str_def trim_def is_ws_def)

section \<open>Properties of the weights\<close>

















section \<open>Properties of the theme hook\<close>

lemma light_neq_dark: "str ''light'' \<noteq> str ''dark''"
  by (simp add: str_def)

lemma getInitialTheme_light_or_dark:
  "getInitialTheme storage prefers_dark \<in> {str ''light'', str ''dark''}"
  by (simp add: getInitialTheme_def split: option.split)

lemma getInitialTheme_eq:
  "getInitialTheme storage prefers_dark =
     (if storage STORAGE_KEY = Some (str ''light'') then str ''light''
      else if storage STORAGE_KEY = Some (str ''dark'') then str ''dark''
      else if prefers_dark then str ''dark'' else str ''light'')"
  by (simp add: getInitialTheme_def split: option.split)

lemma toggleTheme_light_or_dark: "theme (toggleTheme st) \<in> {str ''light'', str ''dark''}"
  by (simp add: toggleTheme_def Let_def)

lemma toggles_light_or_dark:
  "theme st \<in> {str ''light'', str ''dark''} \<Longrightarrow>
   theme (toggles n st) \<in> {str ''light'', str ''dark''}"
proof (induction n arbitrary: st)
  case 0
  then show ?case by simp
next
  case (Suc n)
  have "theme (toggles n (toggleTheme st)) \<in> {str ''light'', str ''dark''}"
    by (rule Suc.IH) (rule toggleTheme_light_or_dark)
  then show ?case by simp
qed

text \<open>The theme after \<open>n\<close> toggles: the first one for even \<open>n\<close>, the other one for odd \<open>n\<close>.\<close>

lemma toggles_theme:
  "theme st \<in> {str ''light'', str ''dark''} \<Longrightarrow>
   theme (toggles n st) =
     (if even n then theme st
      else if theme st = str ''light'' then str ''dark'' else str ''light'')"
proof (induction n arbitrary: st)
  case 0
  then show ?case by simp
next
  case (Suc n)
  have "theme (toggles n (toggleTheme st)) =
     (if even n then theme (toggleTheme st)
      else if theme (toggleTheme st) = str ''light'' then str ''dark'' else str ''light'')"
    by (rule Suc.IH) (rule toggleTheme_light_or_dark)
  moreover have "theme (toggleTheme st)
      = (if theme st = str ''light'' then str ''dark'' else str ''light'')"
    by (simp add: toggleTheme_def Let_def)
  ultimately show ?case
    using Suc.prems light_neq_dark by auto
qed

text \<open>
  The storage after \<open>n\<close> toggles: untouched when \<open>n = 0\<close>, and otherwise the first
  storage with the current theme under the key.
\<close>

lemma toggles_storage:
  "localStorage (toggles n st) =
     (if n = 0 then localStorage st
      else (localStorage st)(STORAGE_KEY \<mapsto> theme (toggles n st)))"
proof (induction n arbitrary: st)
  case 0
  then show ?case by simp
next
  case (Suc n)
  have t: "localStorage (toggleTheme st) = (localStorage st)(STORAGE_KEY \<mapsto> theme (toggleTheme st))"
    by (simp add: toggleTheme_def Let_def)
  show ?case
  proof (cases "n = 0")
    case True
    with t show ?thesis by simp
  next
    case False
    with Suc.IH [of "toggleTheme st"] t show ?thesis by simp
  qed
qed

text \<open>
  Claim C10. The theme is always \<open>light\<close> or \<open>dark\<close>. The hook starts from the stored
  value when that is \<open>light\<close> or \<open>dark\<close>, and from the system preference for any
  other stored value or none, and it leaves the storage as it found it. After \<open>n\<close>
  toggles the theme is the first one for even \<open>n\<close> and the other one for odd \<open>n\<close>,
  so it is one of the two; \<open>toggleTheme\<close> swaps the two, so two toggles restore the
  theme; each toggle stores the new theme under the key \<open>reporadar-theme\<close> and
  changes no other key.
\<close>

theorem theme_light_or_dark_and_toggle_involutive:
  "theme (useTheme_initial storage prefers_dark) =
       (if storage STORAGE_KEY = Some (str ''light'') then str ''light''
        else if storage STORAGE_KEY = Some (str ''dark'') then str ''dark''
        else if prefers_dark then str ''dark'' else str ''light'')
   \<and> localStorage (useTheme_initial storage prefers_dark) = storage
   \<and> theme (toggles n (useTheme_initial storage prefers_dark)) \<in> {str ''light'', str ''dark''}
   \<and> theme (toggles n (useTheme_initial storage prefers_dark)) =
       (if even n then theme (useTheme_initial storage prefers_dark)
        else if theme (useTheme_initial storage prefers_dark) = str ''light'' then str ''dark''
        else str ''light'')
   \<and> localStorage (toggles n (useTheme_initial storage prefers_dark)) =
       (if n = 0 then storage
        else storage(STORAGE_KEY \<mapsto> theme (toggles n (useTheme_initial storage prefers_dark))))
   \<and> (storage STORAGE_KEY \<notin> {Some (str ''light''), Some (str ''dark'')} \<longrightarrow>
        getInitialTheme storage prefers_dark = (if prefers_dark then str ''dark'' else str ''light''))
   \<and> (storage STORAGE_KEY \<in> {Some (str ''light''), Some (str ''dark'')} \<longrightarrow>
        Some (getInitialTheme storage prefers_dark) = storage STORAGE_KEY)
   \<and> (theme st \<in> {str ''light'', str ''dark''} \<longrightarrow>
        theme (toggleTheme st) \<noteq> theme st
        \<and> theme (toggleTheme st) \<in> {str ''light'', str ''dark''}
        \<and> theme (toggleTheme (toggleTheme st)) = theme st)
   \<and> theme (toggleTheme st) = (if theme st = str ''light'' then str ''dark'' else str ''light'')
   \<and> localStorage (toggleTheme st) = (localStorage st)(STORAGE_KEY \<mapsto> theme (toggleTheme st))
   \<and> localStorage (toggleTheme st) STORAGE_KEY = Some (theme (toggleTheme st))
   \<and> STORAGE_KEY = str ''reporadar-theme''"
proof (intro conjI impI)
  have init: "theme (useTheme_initial storage prefers_dark) \<in> {str ''light'', str ''dark''}"
    by (simp only: useTheme_initial_def theme_state.simps getInitialTheme_light_or_dark)
  show "theme (useTheme_initial storage prefers_dark) =
       (if storage STORAGE_KEY = Some (str ''light'') then str ''light''
        else if storage STORAGE_KEY = Some (str ''dark'') then str ''dark''
        else if prefers_dark then str ''dark'' else str ''light'')"
    by (simp only: useTheme_initial_def theme_state.simps getInitialTheme_eq)
  show s0: "localStorage (useTheme_initial storage prefers_dark) = storage"
    by (simp only: useTheme_initial_def theme_state.simps)
  show "theme (toggles n (useTheme_initial storage prefers_dark)) \<in> {str ''light'', str ''dark''}"
    using init by (rule toggles_light_or_dark)
  show "theme (toggles n (useTheme_initial storage prefers_dark)) =
       (if even n then theme (useTheme_initial storage prefers_dark)
        else if theme (useTheme_initial storage prefers_dark) = str ''light'' then str ''dark''
        else str ''light'')"
    using init by (rule toggles_theme)
  show "localStorage (toggles n (useTheme_initial storage prefers_dark)) =
       (if n = 0 then storage
        else storage(STORAGE_KEY \<mapsto> theme (toggles n (useTheme_initial storage prefers_dark))))"
    using toggles_storage [of n "useTheme_initial storage prefers_dark"]
    by (simp only: s0)
  show "getInitialTheme storage prefers_dark = (if prefers_dark then str ''dark'' else str ''light'')"
    if "storage STORAGE_KEY \<notin> {Some (str ''light''), Some (str ''dark'')}"
    using that by (auto simp: getInitialTheme_def split: option.split)
  show "Some (getInitialTheme storage prefers_dark) = storage STORAGE_KEY"
    if "storage STORAGE_KEY \<in> {Some (str ''light''), Some (str ''dark'')}"
    using that by (auto simp: getInitialTheme_def split: option.split)
  show "theme (toggleTheme st) = (if theme st = str ''light'' then str ''dark'' else str ''light'')"
    by (simp add: toggleTheme_def Let_def)
  show "localStorage (toggleTheme st) = (localStorage st)(STORAGE_KEY \<mapsto> theme (toggleTheme st))"
    by (simp add: toggleTheme_def Let_def)
  show "localStorage (toggleTheme st) STORAGE_KEY = Some (theme (toggleTheme st))"
    by (simp add: toggleTheme_def Let_def)
  show "STORAGE_KEY = str ''reporadar-theme''"
    by (rule STORAGE_KEY_def)
next
  assume a: "theme st \<in> {str ''light'', str ''dark''}"
  then show "theme (toggleTheme st) \<noteq> theme st"
    by (auto simp: toggleTheme_def Let_def)
  show "theme (toggleTheme st) \<in> {str ''light'', str ''dark''}"
    by (rule toggleTheme_light_or_dark)
  from a show "theme (toggleTheme (toggleTheme st)) = theme st"
    by (auto simp: toggleTheme_def Let_def)
qed

theorem theme_light_or_dark_and_toggle_involutive_witness:
  "[STORAGE_KEY \<mapsto> str ''blue''] STORAGE_KEY \<notin> {Some (str ''light''), Some (str ''dark'')}
   \<and> getInitialTheme [STORAGE_KEY \<mapsto> str ''blue''] True = str ''dark''
   \<and> theme (useTheme_initial [STORAGE_KEY \<mapsto> str ''blue''] True) = str ''dark''
   \<and> theme (toggles 3 (useTheme_initial [STORAGE_KEY \<mapsto> str ''blue''] True)) = str ''light''
   \<and> localStorage (toggles 3 (useTheme_initial [STORAGE_KEY \<mapsto> str ''blue''] True))
        = [STORAGE_KEY \<mapsto> str ''light'']
   \<and> theme \<lparr>theme = str ''dark'', localStorage = [STORAGE_KEY \<mapsto> str ''blue'']\<rparr>
        \<in> {str ''light'', str ''dark''}
   \<and> theme (toggleTheme \<lparr>theme = str ''dark'', localStorage = [STORAGE_KEY \<mapsto> str ''blue'']\<rparr>)
        = str ''light''
   \<and> theme (toggleTheme (toggleTheme
        \<lparr>theme = str ''dark'', localStorage = [STORAGE_KEY \<mapsto> str ''blue'']\<rparr>)) = str ''dark''
   \<and> localStorage (toggleTheme
        \<lparr>theme = str ''dark'', localStorage = [STORAGE_KEY \<mapsto> str ''blue'']\<rparr>) STORAGE_KEY
        = Some (str ''light'')"
  using theme_light_or_dark_and_toggle_involutive
    [of "[STORAGE_KEY \<mapsto> str ''blue'']" True 3
        "\<lparr>theme = str ''dark'', localStorage = [STORAGE_KEY \<mapsto> str ''blue'']\<rparr>"]
  by (simp add: str_eq_iff light_neq_dark)

section \<open>Properties of the API client\<close>

lemma searchRepos_ok:
  "fetch e (search_request e params) = Inr res \<Longrightarrow> ok res \<Longrightarrow>
   searchRepos e params = res_json res"
  by (simp add: searchRepos_def)


text \<open>A response that is not ok never resolves: some value is thrown.\<close>

lemma searchRepos_not_ok_throws:
  "fetch e (search_request e params) = Inr res \<Longrightarrow> \<not> ok res \<Longrightarrow>
   \<exists>x. searchRepos e params = Inl x"
  by (simp add: searchRepos_def Let_def split: sum.split)

lemma searchRepos_not_ok_unparsed:
  "fetch e (search_request e params) = Inr res \<Longrightarrow> \<not> ok res \<Longrightarrow> res_json res = Inl x \<Longrightarrow>
   searchRepos e params = Inl (Error (str ''Search failed''))"
  by (simp add: searchRepos_def or_else_def)

lemma searchRepos_not_ok_detail:
  "fetch e (search_request e params) = Inr res \<Longrightarrow> \<not> ok res \<Longrightarrow> res_json res = Inr j \<Longrightarrow>
   get_field e j (str ''detail'') = Inr (Val (JStr s)) \<Longrightarrow> s \<noteq> [] \<Longrightarrow>
   searchRepos e params = Inl (Error s)"
  by (simp add: searchRepos_def or_else_def)

lemma searchRepos_not_ok_no_detail:
  "fetch e (search_request e params) = Inr res \<Longrightarrow> \<not> ok res \<Longrightarrow> res_json res = Inr j \<Longrightarrow>
   get_field e j (str ''detail'') = Inr d \<Longrightarrow> \<not> truthy d \<Longrightarrow>
   searchRepos e params = Inl (Error (str ''Search failed''))"
  by (cases d) (simp_all add: searchRepos_def or_else_def)

lemma handleSearch_thrown:
  "searchRepos e (handleSearch_params st u) = Inl x \<Longrightarrow>
   handleSearch e st u =
     st\<lparr>loading := False,
        error := Some (case x of Error message \<Rightarrow> message | NonError \<Rightarrow> str ''Search failed''),
        searchResult := JNull\<rparr>"
  by (simp add: handleSearch_def catch_error_def)

lemma render_after_throw:
  "searchRepos e (handleSearch_params st u) = Inl (Error message) \<Longrightarrow>
   \<not> footer_throws (indexedCount st) \<Longrightarrow>
   render e (handleSearch e st u) =
     Some \<lparr>loading_state = False,
           alert = (if message = [] then None else Some message),
           results_list = None\<rparr>"
  by (simp add: handleSearch_thrown render_def)

text \<open>A response without \<open>query_repo\<close>: \<open>App\<close> throws while it builds the results list.\<close>

lemma render_without_query_repo:
  "truthy_json (searchResult st) \<Longrightarrow> \<not> loading st \<Longrightarrow>
   get_field e (searchResult st) (str ''query_repo'') = Inr Undefined \<Longrightarrow>
   render e st = None"
  by (simp add: render_def ResultsList_props_def split: sum.split)

lemma search_request_fetch: "search_request (e\<lparr>fetch := f\<rparr>) params = search_request e params"
  by (simp add: search_request_def)

lemma get_field_fetch: "get_field (e\<lparr>fetch := f\<rparr>) j k = get_field e j k"
  by (cases j) simp_all

lemma ToString_fetch: "ToString (e\<lparr>fetch := f\<rparr>) j = ToString e j"
proof (induction e j rule: ToString.induct)
  case (5 e xs)
  then have "map (\<lambda>x. if x = JNull then Inr [] else ToString (e\<lparr>fetch := f\<rparr>) x) xs
           = map (\<lambda>x. if x = JNull then Inr [] else ToString e x) xs"
    by (intro map_cong) auto
  then show ?case by (simp only: ToString.simps)
qed simp_all

text \<open>The network answers one request only: the one \<open>search_request\<close> describes.\<close>

lemma searchRepos_one_request:
  "searchRepos
     (e\<lparr>fetch := (\<lambda>q. if q = search_request e params then fetch e q else Inl NonError)\<rparr>)
     params = searchRepos e params"
  by (simp add: searchRepos_def search_request_fetch get_field_fetch ToString_fetch Let_def
      split: sum.split)

text \<open>
  Claim C6. \<open>searchRepos\<close> sends a POST to \<open>/api/search\<close> under the base URL, with a
  JSON body that has exactly the members \<open>repo_url\<close>, \<open>weight_purpose\<close>,
  \<open>weight_stack\<close>, \<open>limit\<close> and \<open>min_stars\<close>, and the answer to that request is
  all it takes from the network; when the response is ok and its body
  is a \<open>SearchResponse\<close>, the call returns that body: \<open>query_repo\<close>, the \<open>results\<close>
  in the order received (each with its three scores and its display fields),
  \<open>indexed_count\<close> and \<open>search_time_ms\<close>.
\<close>

theorem searchRepos_request_and_response:
  "req_method (search_request e params) = str ''POST''
   \<and> req_url (search_request e params) = API_BASE e @ str ''/api/search''
   \<and> req_headers (search_request e params) = [(str ''Content-Type'', str ''application/json'')]
   \<and> req_body (search_request e params) =
       JObj [(str ''repo_url'', JStr (repo_url params)),
             (str ''weight_purpose'', JNum (weight_purpose params)),
             (str ''weight_stack'', JNum (weight_stack params)),
             (str ''limit'', JNum (limit params)),
             (str ''min_stars'', JNum (min_stars params))]
   \<and> searchRepos
         (e\<lparr>fetch := (\<lambda>q. if q = search_request e params then fetch e q else Inl NonError)\<rparr>)
         params = searchRepos e params
   \<and> (fetch e (search_request e params) = Inr res \<and> ok res
        \<and> res_json res = Inr (SearchResponse_json r) \<longrightarrow>
      searchRepos e params = Inr (SearchResponse_json r)
      \<and> get_field e (SearchResponse_json r) (str ''query_repo'')
          = Inr (Val (QueryRepo_json (query_repo r)))
      \<and> get_field e (SearchResponse_json r) (str ''results'')
          = Inr (Val (JArr (map SearchResultItem_json (results r))))
      \<and> get_field e (SearchResponse_json r) (str ''indexed_count'')
          = Inr (Val (JNum (indexed_count r)))
      \<and> get_field e (SearchResponse_json r) (str ''search_time_ms'')
          = Inr (Val (JNum (search_time_ms r)))
      \<and> (\<forall>item \<in> set (results r).
            get_field e (SearchResultItem_json item) (str ''similarity_score'')
              = Inr (Val (JNum (similarity_score item)))
            \<and> get_field e (SearchResultItem_json item) (str ''purpose_score'')
              = Inr (Val (JNum (purpose_score item)))
            \<and> get_field e (SearchResultItem_json item) (str ''stack_score'')
              = Inr (Val (JNum (stack_score item)))
            \<and> get_field e (SearchResultItem_json item) (str ''full_name'')
              = Inr (Val (JStr (SearchResultItem.full_name item)))
            \<and> get_field e (SearchResultItem_json item) (str ''url'')
              = Inr (Val (JStr (SearchResultItem.url item)))
            \<and> get_field e (SearchResultItem_json item) (str ''description'')
              = Inr (Val (nullable (SearchResultItem.description item)))
            \<and> get_field e (SearchResultItem_json item) (str ''topics'')
              = Inr (Val (JArr (map JStr (SearchResultItem.topics item))))
            \<and> get_field e (SearchResultItem_json item) (str ''language_primary'')
              = Inr (Val (nullable (SearchResultItem.language_primary item)))
            \<and> get_field e (SearchResultItem_json item) (str ''stars'')
              = Inr (Val (JNum (SearchResultItem.stars item)))))"
proof (intro conjI impI ballI)
  show "searchRepos
         (e\<lparr>fetch := (\<lambda>q. if q = search_request e params then fetch e q else Inl NonError)\<rparr>)
         params = searchRepos e params"
    by (rule searchRepos_one_request)
  assume a: "fetch e (search_request e params) = Inr res \<and> ok res
        \<and> res_json res = Inr (SearchResponse_json r)"
  then show "searchRepos e params = Inr (SearchResponse_json r)"
    by (simp add: searchRepos_ok)
qed (simp_all add: search_request_def SearchRequest_json_def SearchResponse_json_def
      SearchResultItem_json_def)

theorem searchRepos_request_and_response_witness:
  "fetch (env_with \<lparr>ok = True, res_json = Inr (SearchResponse_json
        \<lparr>query_repo = \<lparr>QueryRepo.full_name = str ''test/repo'', description = None\<rparr>,
         results = [], indexed_count = 100, search_time_ms = 42\<rparr>)\<rparr>)
     (search_request (env_with \<lparr>ok = True, res_json = Inr (SearchResponse_json
        \<lparr>query_repo = \<lparr>QueryRepo.full_name = str ''test/repo'', description = None\<rparr>,
         results = [], indexed_count = 100, search_time_ms = 42\<rparr>)\<rparr>)
       \<lparr>repo_url = str ''https://github.com/test/repo'', weight_purpose = fl (7/10),
        weight_stack = fl (3/10), limit = 20, min_stars = 0\<rparr>)
     = Inr \<lparr>ok = True, res_json = Inr (SearchResponse_json
        \<lparr>query_repo = \<lparr>QueryRepo.full_name = str ''test/repo'', description = None\<rparr>,
         results = [], indexed_count = 100, search_time_ms = 42\<rparr>)\<rparr>
   \<and> searchRepos (env_with \<lparr>ok = True, res_json = Inr (SearchResponse_json
        \<lparr>query_repo = \<lparr>QueryRepo.full_name = str ''test/repo'', description = None\<rparr>,
         results = [], indexed_count = 100, search_time_ms = 42\<rparr>)\<rparr>)
       \<lparr>repo_url = str ''https://github.com/test/repo'', weight_purpose = fl (7/10),
        weight_stack = fl (3/10), limit = 20, min_stars = 0\<rparr>
     = Inr (SearchResponse_json
        \<lparr>query_repo = \<lparr>QueryRepo.full_name = str ''test/repo'', description = None\<rparr>,
         results = [], indexed_count = 100, search_time_ms = 42\<rparr>)
   \<and> req_url (search_request (env_with \<lparr>ok = True, res_json = Inr (SearchResponse_json
        \<lparr>query_repo = \<lparr>QueryRepo.full_name = str ''test/repo'', description = None\<rparr>,
         results = [], indexed_count = 100, search_time_ms = 42\<rparr>)\<rparr>)
       \<lparr>repo_url = str ''https://github.com/test/repo'', weight_purpose = fl (7/10),
        weight_stack = fl (3/10), limit = 20, min_stars = 0\<rparr>)
     = str ''http://localhost:8000/api/search''"
  using searchRepos_request_and_response
    [of "env_with \<lparr>ok = True, res_json = Inr (SearchResponse_json
          \<lparr>query_repo = \<lparr>QueryRepo.full_name = str ''test/repo'', description = None\<rparr>,
           results = [], indexed_count = 100, search_time_ms = 42\<rparr>)\<rparr>"
        "\<lparr>repo_url = str ''https://github.com/test/repo'', weight_purpose = fl (7/10),
          weight_stack = fl (3/10), limit = 20, min_stars = 0\<rparr>"
        "\<lparr>ok = True, res_json = Inr (SearchResponse_json
          \<lparr>query_repo = \<lparr>QueryRepo.full_name = str ''test/repo'', description = None\<rparr>,
           results = [], indexed_count = 100, search_time_ms = 42\<rparr>)\<rparr>"
        "\<lparr>query_repo = \<lparr>QueryRepo.full_name = str ''test/repo'', description = None\<rparr>,
          results = [], indexed_count = 100, search_time_ms = 42\<rparr>"]
  by (simp add: env_with_def str_def)

section \<open>Properties of the error path\<close>

text \<open>
  A response that is not ok, with \<open>detail\<close> a non-empty string: the error carries it,
  and the application shows it in the alert banner and shows no results list.
\<close>

lemma not_ok_detail_is_shown:
  assumes "fetch e (search_request e (handleSearch_params st u)) = Inr res"
    and "\<not> ok res"
    and "res_json res = Inr j"
    and "get_field e j (str ''detail'') = Inr (Val (JStr s))"
    and "s \<noteq> []"
    and "\<not> footer_throws (indexedCount st)"
  shows "searchRepos e (handleSearch_params st u) = Inl (Error s)
     \<and> error (handleSearch e st u) = Some s
     \<and> render e (handleSearch e st u)
         = Some \<lparr>loading_state = False, alert = Some s, results_list = None\<rparr>"
proof -
  have t: "searchRepos e (handleSearch_params st u) = Inl (Error s)"
    using assms(1-5) by (rule searchRepos_not_ok_detail)
  with assms(5,6) show ?thesis
    by (simp add: handleSearch_thrown render_def)
qed

text \<open>The same with a body that is not JSON, or without a truthy \<open>detail\<close>.\<close>

lemma not_ok_fallback_is_shown:
  assumes "fetch e (search_request e (handleSearch_params st u)) = Inr res"
    and "\<not> ok res"
    and "(\<exists>x. res_json res = Inl x)
       \<or> (\<exists>j d. res_json res = Inr j \<and> get_field e j (str ''detail'') = Inr d \<and> \<not> truthy d)"
    and "\<not> footer_throws (indexedCount st)"
  shows "searchRepos e (handleSearch_params st u) = Inl (Error (str ''Search failed''))
     \<and> error (handleSearch e st u) = Some (str ''Search failed'')
     \<and> render e (handleSearch e st u)
         = Some \<lparr>loading_state = False, alert = Some (str ''Search failed''),
                 results_list = None\<rparr>"
proof -
  have t: "searchRepos e (handleSearch_params st u) = Inl (Error (str ''Search failed''))"
    using assms(1-3) searchRepos_not_ok_unparsed searchRepos_not_ok_no_detail by blast
  with assms(4) show ?thesis
    by (simp add: handleSearch_thrown render_def)
qed

text \<open>Whatever the body, a response that is not ok leaves no results list on screen.\<close>

lemma not_ok_no_results_list:
  assumes "fetch e (search_request e (handleSearch_params st u)) = Inr res"
    and "\<not> ok res"
  shows "render e (handleSearch e st u) \<noteq> Some v \<or> results_list v = None"
    and "error (handleSearch e st u) \<noteq> None"
proof -
  from assms obtain x where "searchRepos e (handleSearch_params st u) = Inl x"
    using searchRepos_not_ok_throws by blast
  then show "render e (handleSearch e st u) \<noteq> Some v \<or> results_list v = None"
    and "error (handleSearch e st u) \<noteq> None"
    by (auto simp: handleSearch_thrown render_def split: if_splits)
qed

text \<open>
  Claim C5. For every response that is not ok, \<open>searchRepos\<close> throws an \<open>Error\<close> with
  the body's \<open>detail\<close> as message, and the application renders that message in the
  alert banner. The code does not do so for the body \<^verbatim>\<open>{"detail": []}\<close>: the empty array
  is truthy, so it is the argument of \<^verbatim>\<open>new Error\<close>, and its string conversion is the
  empty string; the error state is the empty string, which is falsy, and neither the
  banner nor a results list is rendered.
\<close>

theorem empty_detail_array_renders_no_banner:
  "searchRepos (env_with \<lparr>ok = False, res_json = Inr (JObj [(str ''detail'', JArr [])])\<rparr>)
       (handleSearch_params initial_state (str ''owner/repo''))
     = Inl (Error [])
   \<and> error (handleSearch
        (env_with \<lparr>ok = False, res_json = Inr (JObj [(str ''detail'', JArr [])])\<rparr>)
        initial_state (str ''owner/repo'')) = Some []
   \<and> render (env_with \<lparr>ok = False, res_json = Inr (JObj [(str ''detail'', JArr [])])\<rparr>)
       (handleSearch
        (env_with \<lparr>ok = False, res_json = Inr (JObj [(str ''detail'', JArr [])])\<rparr>)
        initial_state (str ''owner/repo''))
     = Some \<lparr>loading_state = False, alert = None, results_list = None\<rparr>"
  by (simp add: handleSearch_def searchRepos_def env_with_def or_else_def render_def
      footer_throws_def catch_error_def initial_state_def)

section \<open>Properties of the first search\<close>









end
